theory Spec2Isabelle
  imports Complex_Main "HOL-Library.Sublist"
begin

section \<open>JavaScript values\<close>

text \<open>
  The SDK is TypeScript; its types are erased at run time and the codecs and the message
  checks inspect their arguments dynamically (\<^verbatim>\<open>Array.isArray\<close>, \<^verbatim>\<open>typeof\<close>, \<^verbatim>\<open>!x\<close>).
  The values they inspect are therefore modelled as run-time JavaScript values.

  An object is the function from property names to property values; a property that is
  absent reads as \<^verbatim>\<open>undefined\<close>, exactly as in JavaScript, so an absent property and a
  property holding \<^verbatim>\<open>undefined\<close> are the same object here (the code never asks
  for the difference: it uses no \<^verbatim>\<open>in\<close>, \<^verbatim>\<open>hasOwnProperty\<close> or key enumeration).
  Numbers are reals plus \<^verbatim>\<open>NaN\<close>; the code only ever tests a number for being falsy.
\<close>

datatype jsval =
    JUndefined
  | JNull
  | JBool bool
  | JNum real
  | JNaN
  | JStr string
  | JArr "jsval list"
  | JObj "string \<Rightarrow> jsval"

text \<open>The \<^verbatim>\<open>typeof\<close> operator.\<close>

fun typeof :: "jsval \<Rightarrow> string" where
  "typeof JUndefined = ''undefined''"
| "typeof JNull = ''object''"
| "typeof (JBool b) = ''boolean''"
| "typeof (JNum r) = ''number''"
| "typeof JNaN = ''number''"
| "typeof (JStr s) = ''string''"
| "typeof (JArr xs) = ''object''"
| "typeof (JObj f) = ''object''"

text \<open>
  Conversion to boolean, as the prefix operator \<^verbatim>\<open>!\<close> and a condition \<^verbatim>\<open>if (!x)\<close> use
  it: the falsy values are \<^verbatim>\<open>undefined\<close>, \<^verbatim>\<open>null\<close>, \<^verbatim>\<open>false\<close>, \<^verbatim>\<open>0\<close>, \<^verbatim>\<open>NaN\<close>
  and the empty string; every array and every object is truthy.
\<close>

fun falsy :: "jsval \<Rightarrow> bool" where
  "falsy JUndefined = True"
| "falsy JNull = True"
| "falsy (JBool b) = (b = False)"
| "falsy (JNum r) = (r = 0)"
| "falsy JNaN = True"
| "falsy (JStr s) = (s = [])"
| "falsy (JArr xs) = False"
| "falsy (JObj f) = False"

text \<open>The value of the expression \<^verbatim>\<open>!v\<close>: always a boolean.\<close>

definition js_not :: "jsval \<Rightarrow> jsval" where
  "js_not v = JBool (falsy v)"

fun nullish :: "jsval \<Rightarrow> bool" where
  "nullish JUndefined = True"
| "nullish JNull = True"
| "nullish v = False"

fun isArray :: "jsval \<Rightarrow> bool" where
  "isArray (JArr xs) = True"
| "isArray v = False"

text \<open>The test \<^verbatim>\<open>Array.isArray(v) && v.length === n\<close>.\<close>

fun isArrayOfLength :: "jsval \<Rightarrow> nat \<Rightarrow> bool" where
  "isArrayOfLength (JArr xs) n = (length xs = n)"
| "isArrayOfLength v n = False"

text \<open>
  The indexed read \<^verbatim>\<open>v[i]\<close> of a value that is neither \<^verbatim>\<open>undefined\<close> nor \<^verbatim>\<open>null\<close>:
  the element of an array, \<^verbatim>\<open>undefined\<close> beyond its end.
\<close>

fun element :: "jsval \<Rightarrow> nat \<Rightarrow> jsval" where
  "element (JArr xs) i = (if i < length xs then xs ! i else JUndefined)"
| "element v i = JUndefined"

text \<open>
  Reading a named property \<^verbatim>\<open>v.k\<close> of a value that is neither \<^verbatim>\<open>undefined\<close> nor
  \<^verbatim>\<open>null\<close>. Primitives and arrays have no own property of any name the code reads
  except \<^verbatim>\<open>length\<close>; members inherited from prototypes are not modelled, and none of
  the names read by the code is one.
\<close>

fun get :: "jsval \<Rightarrow> string \<Rightarrow> jsval" where
  "get (JObj f) k = f k"
| "get (JArr xs) k = (if k = ''length'' then JNum (real (length xs)) else JUndefined)"
| "get (JStr s) k = (if k = ''length'' then JNum (real (length s)) else JUndefined)"
| "get v k = JUndefined"

text \<open>An object literal \<^verbatim>\<open>{ k1: v1, ..., kn: vn }\<close> with distinct keys.\<close>

definition object :: "(string \<times> jsval) list \<Rightarrow> jsval" where
  "object kvs = JObj (\<lambda>k. case map_of kvs k of None \<Rightarrow> JUndefined | Some v \<Rightarrow> v)"

section \<open>Errors\<close>

text \<open>
  Every \<^verbatim>\<open>throw\<close> of the source is a value of this type. \<open>TypeError\<close> is the
  exception of the language itself: a property read on \<^verbatim>\<open>undefined\<close> or \<^verbatim>\<open>null\<close>, or
  a call of something that is not a function. The other constructors are the factories of
  \<^verbatim>\<open>SDKErrors\<close> with their arguments.
\<close>

datatype error =
    TypeError
  | ERROR_CTYPE_HASH_NOT_PROVIDED
  | ERROR_CLAIM_HASH_NOT_PROVIDED
  | ERROR_OWNER_NOT_PROVIDED
  | ERROR_DELEGATION_ID_TYPE
  | ERROR_REVOCATION_BIT_MISSING
  | ERROR_HASH_MALFORMED jsval string
  | ERROR_ADDRESS_INVALID jsval string
  | ERROR_COMPRESS_OBJECT jsval string
  | ERROR_DECOMPRESSION_ARRAY "string option"
  | ERROR_NONCE_HASH_INVALID string string string
  | ERROR_SIGNATURE_UNVERIFIABLE
  | ERROR_DECODING_MESSAGE
  | ERROR_PARSING_MESSAGE
  | ERROR_IDENTITY_MISMATCH string string
  | ERROR_CLAIM_UNVERIFIABLE
  | ERROR_NESTED_CLAIM_UNVERIFIABLE
  | ERROR_MESSAGE_BODY_MALFORMED

text \<open>
  Modelled from the spec: the error taxonomy of its section 7. The module
  \<^verbatim>\<open>SDKErrors\<close> is not among the sources, and the specification names errors by kind, not
  by factory: a record rejected while being compressed is \<open>MalformedRecord\<close>, a tuple
  rejected while being decompressed is \<open>ArrayShapeMismatch\<close>, and so on. The exceptions of
  the language have no kind.
\<close>

datatype error_kind =
    MalformedRecord
  | ArrayShapeMismatch
  | UnknownMessageKind
  | IntegrityError
  | SignatureError
  | DecryptionError
  | PayloadParseError
  | IdentityMismatch

fun kind_of :: "error \<Rightarrow> error_kind option" where
  "kind_of ERROR_CTYPE_HASH_NOT_PROVIDED = Some MalformedRecord"
| "kind_of ERROR_CLAIM_HASH_NOT_PROVIDED = Some MalformedRecord"
| "kind_of ERROR_OWNER_NOT_PROVIDED = Some MalformedRecord"
| "kind_of ERROR_DELEGATION_ID_TYPE = Some MalformedRecord"
| "kind_of ERROR_REVOCATION_BIT_MISSING = Some MalformedRecord"
| "kind_of (ERROR_HASH_MALFORMED h n) = Some MalformedRecord"
| "kind_of (ERROR_ADDRESS_INVALID a n) = Some MalformedRecord"
| "kind_of (ERROR_COMPRESS_OBJECT v n) = Some MalformedRecord"
| "kind_of (ERROR_DECOMPRESSION_ARRAY n) = Some ArrayShapeMismatch"
| "kind_of ERROR_MESSAGE_BODY_MALFORMED = Some UnknownMessageKind"
| "kind_of (ERROR_NONCE_HASH_INVALID h n t) = Some IntegrityError"
| "kind_of ERROR_SIGNATURE_UNVERIFIABLE = Some SignatureError"
| "kind_of ERROR_DECODING_MESSAGE = Some DecryptionError"
| "kind_of ERROR_PARSING_MESSAGE = Some PayloadParseError"
| "kind_of (ERROR_IDENTITY_MISMATCH a b) = Some IdentityMismatch"
| "kind_of e = None"

section \<open>Reads that may throw and sequencing\<close>

text \<open>
  A property read that may throw, \<^verbatim>\<open>v.k\<close>, and a chain of reads \<^verbatim>\<open>v.k1.k2...kn\<close>, which
  throws at the first link whose base is \<^verbatim>\<open>undefined\<close> or \<^verbatim>\<open>null\<close>.
\<close>

definition readProp :: "jsval \<Rightarrow> string \<Rightarrow> error + jsval" where
  "readProp v k = (if nullish v then Inl TypeError else Inr (get v k))"

fun readPath :: "jsval \<Rightarrow> string list \<Rightarrow> error + jsval" where
  "readPath v [] = Inr v"
| "readPath v (k # ks) = (case readProp v k of Inl e \<Rightarrow> Inl e | Inr w \<Rightarrow> readPath w ks)"

text \<open>Sequencing of two computations that may throw.\<close>

definition andThen :: "error + 'a \<Rightarrow> ('a \<Rightarrow> error + 'b) \<Rightarrow> error + 'b" where
  "andThen m f = (case m of Inl e \<Rightarrow> Inl e | Inr x \<Rightarrow> f x)"

section \<open>Attestation codec (AttestationUtils)\<close>

text \<open>
  Modelled from the spec: \<^verbatim>\<open>DataUtils.validateHash\<close> and \<^verbatim>\<open>DataUtils.validateAddress\<close>
  are not among the sources. The specification only says that hash fields are well-formed
  hash strings and that the owner is a well-formed address, so what counts as well-formed
  is a parameter, and each validator throws when its argument is not.
\<close>

record validators =
  validHash :: "jsval \<Rightarrow> bool"
  validAddress :: "jsval \<Rightarrow> bool"

definition validateHash :: "validators \<Rightarrow> jsval \<Rightarrow> string \<Rightarrow> error + unit" where
  "validateHash V h name = (if validHash V h then Inr () else Inl (ERROR_HASH_MALFORMED h name))"

definition validateAddress :: "validators \<Rightarrow> jsval \<Rightarrow> string \<Rightarrow> error + unit" where
  "validateAddress V a name =
     (if validAddress V a then Inr () else Inl (ERROR_ADDRESS_INVALID a name))"

text \<open>
  The guard of the third check of \<^verbatim>\<open>errorCheck\<close>, as the source writes it:
  \<^verbatim>\<open>typeof input.delegationId !== 'string' && !input.delegationId === null\<close>.
  The prefix \<^verbatim>\<open>!\<close> binds tighter than \<^verbatim>\<open>===\<close>, so the right conjunct compares a
  boolean with \<^verbatim>\<open>null\<close>; strict equality with the primitive \<^verbatim>\<open>null\<close> is equality
  of values.
\<close>

definition delegationIdGuard :: "jsval \<Rightarrow> bool" where
  "delegationIdGuard delegationId =
     (typeof delegationId \<noteq> ''string'' \<and> js_not delegationId = JNull)"

definition errorCheck :: "validators \<Rightarrow> jsval \<Rightarrow> error + unit" where
  "errorCheck V input =
     (if nullish input then Inl TypeError
      else if falsy (get input ''cTypeHash'') then Inl ERROR_CTYPE_HASH_NOT_PROVIDED
      else andThen (validateHash V (get input ''cTypeHash'') ''CType'') (\<lambda>u1.
        if falsy (get input ''claimHash'') then Inl ERROR_CLAIM_HASH_NOT_PROVIDED
        else andThen (validateHash V (get input ''claimHash'') ''Claim'') (\<lambda>u2.
          if delegationIdGuard (get input ''delegationId'') then Inl ERROR_DELEGATION_ID_TYPE
          else if falsy (get input ''owner'') then Inl ERROR_OWNER_NOT_PROVIDED
          else andThen (validateAddress V (get input ''owner'') ''owner'') (\<lambda>u3.
            if typeof (get input ''revoked'') \<noteq> ''boolean''
            then Inl ERROR_REVOCATION_BIT_MISSING
            else Inr ()))))"

definition compress :: "validators \<Rightarrow> jsval \<Rightarrow> error + jsval" where
  "compress V attestation =
     andThen (errorCheck V attestation) (\<lambda>u.
       Inr (JArr [get attestation ''claimHash'',
                  get attestation ''cTypeHash'',
                  get attestation ''owner'',
                  get attestation ''revoked'',
                  get attestation ''delegationId'']))"

fun decompress :: "jsval \<Rightarrow> error + jsval" where
  "decompress (JArr attestation) =
     (if length attestation \<noteq> 5 then Inl (ERROR_DECOMPRESSION_ARRAY (Some ''Attestation''))
      else Inr (object [(''claimHash'', attestation ! 0),
                        (''cTypeHash'', attestation ! 1),
                        (''owner'', attestation ! 2),
                        (''revoked'', attestation ! 3),
                        (''delegationId'', attestation ! 4)]))"
| "decompress v = Inl (ERROR_DECOMPRESSION_ARRAY (Some ''Attestation''))"

section \<open>Quote codec (QuoteUtils)\<close>

definition compressCost :: "jsval \<Rightarrow> error + jsval" where
  "compressCost cost =
     (if nullish cost then Inl TypeError
      else if falsy (get cost ''gross'') \<or> falsy (get cost ''net'') \<or> falsy (get cost ''tax'')
      then Inl (ERROR_COMPRESS_OBJECT cost ''Cost Breakdown'')
      else Inr (JArr [get cost ''gross'', get cost ''net'', get cost ''tax'']))"

fun decompressCost :: "jsval \<Rightarrow> error + jsval" where
  "decompressCost (JArr cost) =
     (if length cost \<noteq> 3 then Inl (ERROR_DECOMPRESSION_ARRAY (Some ''Cost Breakdown''))
      else Inr (object [(''gross'', cost ! 0), (''net'', cost ! 1), (''tax'', cost ! 2)]))"
| "decompressCost v = Inl (ERROR_DECOMPRESSION_ARRAY (Some ''Cost Breakdown''))"

definition compressQuote :: "jsval \<Rightarrow> error + jsval" where
  "compressQuote quote =
     (if nullish quote then Inl TypeError
      else if falsy (get quote ''attesterAddress'') \<or>
              falsy (get quote ''cTypeHash'') \<or>
              falsy (get quote ''cost'') \<or>
              falsy (get quote ''currency'') \<or>
              falsy (get quote ''termsAndConditions'') \<or>
              falsy (get quote ''timeframe'')
      then Inl (ERROR_COMPRESS_OBJECT quote ''Quote'')
      else andThen (compressCost (get quote ''cost'')) (\<lambda>cost.
        Inr (JArr [get quote ''attesterAddress'',
                   get quote ''cTypeHash'',
                   cost,
                   get quote ''currency'',
                   get quote ''termsAndConditions'',
                   get quote ''timeframe''])))"

fun decompressQuote :: "jsval \<Rightarrow> error + jsval" where
  "decompressQuote (JArr quote) =
     (if length quote \<noteq> 6 then Inl (ERROR_DECOMPRESSION_ARRAY None)
      else andThen (decompressCost (quote ! 2)) (\<lambda>cost.
        Inr (object [(''attesterAddress'', quote ! 0),
                     (''cTypeHash'', quote ! 1),
                     (''cost'', cost),
                     (''currency'', quote ! 3),
                     (''termsAndConditions'', quote ! 4),
                     (''timeframe'', quote ! 5)])))"
| "decompressQuote v = Inl (ERROR_DECOMPRESSION_ARRAY None)"

definition compressAttesterSignedQuote :: "jsval \<Rightarrow> error + jsval" where
  "compressAttesterSignedQuote attesterSignedQuote =
     (if nullish attesterSignedQuote then Inl TypeError
      else if falsy (get attesterSignedQuote ''attesterAddress'') \<or>
              falsy (get attesterSignedQuote ''cTypeHash'') \<or>
              falsy (get attesterSignedQuote ''cost'') \<or>
              falsy (get attesterSignedQuote ''currency'') \<or>
              falsy (get attesterSignedQuote ''termsAndConditions'') \<or>
              falsy (get attesterSignedQuote ''timeframe'') \<or>
              falsy (get attesterSignedQuote ''attesterSignature'')
      then Inl (ERROR_COMPRESS_OBJECT attesterSignedQuote ''Attester Signed Quote'')
      else andThen (compressCost (get attesterSignedQuote ''cost'')) (\<lambda>cost.
        Inr (JArr [get attesterSignedQuote ''attesterAddress'',
                   get attesterSignedQuote ''cTypeHash'',
                   cost,
                   get attesterSignedQuote ''currency'',
                   get attesterSignedQuote ''termsAndConditions'',
                   get attesterSignedQuote ''timeframe'',
                   get attesterSignedQuote ''attesterSignature''])))"

fun decompressAttesterSignedQuote :: "jsval \<Rightarrow> error + jsval" where
  "decompressAttesterSignedQuote (JArr attesterSignedQuote) =
     (if length attesterSignedQuote \<noteq> 7 then Inl (ERROR_DECOMPRESSION_ARRAY None)
      else andThen (decompressCost (attesterSignedQuote ! 2)) (\<lambda>cost.
        Inr (object [(''attesterAddress'', attesterSignedQuote ! 0),
                     (''cTypeHash'', attesterSignedQuote ! 1),
                     (''cost'', cost),
                     (''currency'', attesterSignedQuote ! 3),
                     (''termsAndConditions'', attesterSignedQuote ! 4),
                     (''timeframe'', attesterSignedQuote ! 5),
                     (''attesterSignature'', attesterSignedQuote ! 6)])))"
| "decompressAttesterSignedQuote v = Inl (ERROR_DECOMPRESSION_ARRAY None)"

definition compressQuoteAgreement :: "jsval \<Rightarrow> error + jsval" where
  "compressQuoteAgreement quoteAgreement =
     (if nullish quoteAgreement then Inl TypeError
      else if falsy (get quoteAgreement ''attesterAddress'') \<or>
              falsy (get quoteAgreement ''cTypeHash'') \<or>
              falsy (get quoteAgreement ''cost'') \<or>
              falsy (get quoteAgreement ''currency'') \<or>
              falsy (get quoteAgreement ''termsAndConditions'') \<or>
              falsy (get quoteAgreement ''timeframe'') \<or>
              falsy (get quoteAgreement ''attesterSignature'')
      then Inl (ERROR_COMPRESS_OBJECT quoteAgreement ''Quote Agreement'')
      else andThen (compressCost (get quoteAgreement ''cost'')) (\<lambda>cost.
        Inr (JArr [get quoteAgreement ''attesterAddress'',
                   get quoteAgreement ''cTypeHash'',
                   cost,
                   get quoteAgreement ''currency'',
                   get quoteAgreement ''termsAndConditions'',
                   get quoteAgreement ''timeframe'',
                   get quoteAgreement ''attesterSignature'',
                   get quoteAgreement ''claimerSignature'',
                   get quoteAgreement ''rootHash''])))"

fun decompressQuoteAgreement :: "jsval \<Rightarrow> error + jsval" where
  "decompressQuoteAgreement (JArr quoteAgreement) =
     (if length quoteAgreement \<noteq> 9 then Inl (ERROR_DECOMPRESSION_ARRAY None)
      else andThen (decompressCost (quoteAgreement ! 2)) (\<lambda>cost.
        Inr (object [(''attesterAddress'', quoteAgreement ! 0),
                     (''cTypeHash'', quoteAgreement ! 1),
                     (''cost'', cost),
                     (''currency'', quoteAgreement ! 3),
                     (''termsAndConditions'', quoteAgreement ! 4),
                     (''timeframe'', quoteAgreement ! 5),
                     (''attesterSignature'', quoteAgreement ! 6),
                     (''claimerSignature'', quoteAgreement ! 7),
                     (''rootHash'', quoteAgreement ! 8)])))"
| "decompressQuoteAgreement v = Inl (ERROR_DECOMPRESSION_ARRAY None)"

section \<open>The records of the codecs\<close>

text \<open>
  The interfaces \<^verbatim>\<open>IAttestation\<close>, \<^verbatim>\<open>ICostBreakdown\<close>, \<^verbatim>\<open>IQuote\<close>,
  \<^verbatim>\<open>IQuoteAttesterSigned\<close> and \<^verbatim>\<open>IQuoteAgreement\<close>: the object with exactly the fields
  of the interface, and the compact tuple with the fields at their positions.
\<close>

definition IAttestation :: "jsval \<Rightarrow> jsval \<Rightarrow> jsval \<Rightarrow> jsval \<Rightarrow> jsval \<Rightarrow> jsval" where
  "IAttestation claimHash cTypeHash' owner' revoked delegationId =
     object [(''claimHash'', claimHash), (''cTypeHash'', cTypeHash'), (''owner'', owner'),
             (''revoked'', revoked), (''delegationId'', delegationId)]"

definition ICostBreakdown :: "jsval \<Rightarrow> jsval \<Rightarrow> jsval \<Rightarrow> jsval" where
  "ICostBreakdown gross net tax = object [(''gross'', gross), (''net'', net), (''tax'', tax)]"

definition IQuote :: "jsval \<Rightarrow> jsval \<Rightarrow> jsval \<Rightarrow> jsval \<Rightarrow> jsval \<Rightarrow> jsval \<Rightarrow> jsval" where
  "IQuote attesterAddress cTypeHash' cost currency termsAndConditions timeframe =
     object [(''attesterAddress'', attesterAddress), (''cTypeHash'', cTypeHash'),
             (''cost'', cost), (''currency'', currency),
             (''termsAndConditions'', termsAndConditions), (''timeframe'', timeframe)]"

definition IQuoteAttesterSigned ::
  "jsval \<Rightarrow> jsval \<Rightarrow> jsval \<Rightarrow> jsval \<Rightarrow> jsval \<Rightarrow> jsval \<Rightarrow> jsval \<Rightarrow> jsval" where
  "IQuoteAttesterSigned attesterAddress cTypeHash' cost currency termsAndConditions timeframe
       attesterSignature =
     object [(''attesterAddress'', attesterAddress), (''cTypeHash'', cTypeHash'),
             (''cost'', cost), (''currency'', currency),
             (''termsAndConditions'', termsAndConditions), (''timeframe'', timeframe),
             (''attesterSignature'', attesterSignature)]"

definition IQuoteAgreement ::
  "jsval \<Rightarrow> jsval \<Rightarrow> jsval \<Rightarrow> jsval \<Rightarrow> jsval \<Rightarrow> jsval \<Rightarrow> jsval \<Rightarrow> jsval \<Rightarrow> jsval
     \<Rightarrow> jsval" where
  "IQuoteAgreement attesterAddress cTypeHash' cost currency termsAndConditions timeframe
       attesterSignature claimerSignature rootHash =
     object [(''attesterAddress'', attesterAddress), (''cTypeHash'', cTypeHash'),
             (''cost'', cost), (''currency'', currency),
             (''termsAndConditions'', termsAndConditions), (''timeframe'', timeframe),
             (''attesterSignature'', attesterSignature),
             (''claimerSignature'', claimerSignature), (''rootHash'', rootHash)]"

section \<open>Claim\<close>

text \<open>
  The helpers of the class that are not among the sources are parameters:
  \<^verbatim>\<open>CTypeUtils.verifyClaimStructure\<close>, \<^verbatim>\<open>CTypeUtils.validateNestedSchemas\<close> (both
  declared to return a boolean) and \<^verbatim>\<open>ClaimUtils.errorCheck\<close> (returns nothing, or
  throws).
\<close>

record claim_helpers =
  verifyClaimStructure :: "jsval \<Rightarrow> jsval \<Rightarrow> bool"
  validateNestedSchemas :: "jsval \<Rightarrow> jsval \<Rightarrow> jsval \<Rightarrow> bool"
  claimErrorCheck :: "jsval \<Rightarrow> error + unit"

definition verifyClaim :: "claim_helpers \<Rightarrow> jsval \<Rightarrow> jsval \<Rightarrow> bool" where
  "verifyClaim H claimContents cTypeSchema = verifyClaimStructure H claimContents cTypeSchema"

text \<open>An instance of the class: its three public fields.\<close>

record Claim =
  cTypeHash :: jsval
  contents :: jsval
  owner :: jsval

text \<open>The public constructor \<^verbatim>\<open>new Claim(claimInput)\<close>.\<close>

definition Claim_constructor :: "claim_helpers \<Rightarrow> jsval \<Rightarrow> error + Claim" where
  "Claim_constructor H claimInput =
     andThen (claimErrorCheck H claimInput) (\<lambda>u.
       if nullish claimInput then Inl TypeError
       else Inr \<lparr> cTypeHash = get claimInput ''cTypeHash'',
                  contents = get claimInput ''contents'',
                  owner = get claimInput ''owner'' \<rparr>)"

definition fromClaim :: "claim_helpers \<Rightarrow> jsval \<Rightarrow> jsval \<Rightarrow> error + Claim" where
  "fromClaim H claimInput cTypeSchema =
     andThen (readProp claimInput ''contents'') (\<lambda>claimContents.
       if \<not> verifyClaim H claimContents cTypeSchema then Inl ERROR_CLAIM_UNVERIFIABLE
       else Claim_constructor H claimInput)"

definition fromNestedCTypeClaim ::
  "claim_helpers \<Rightarrow> jsval \<Rightarrow> jsval \<Rightarrow> jsval \<Rightarrow> jsval \<Rightarrow> error + Claim" where
  "fromNestedCTypeClaim H cTypeInput nestedCType claimContents claimOwner =
     andThen (readProp cTypeInput ''schema'') (\<lambda>schema.
       if \<not> validateNestedSchemas H schema nestedCType claimContents
       then Inl ERROR_NESTED_CLAIM_UNVERIFIABLE
       else Claim_constructor H (object [(''cTypeHash'', get cTypeInput ''hash''),
                                         (''contents'', claimContents),
                                         (''owner'', claimOwner)]))"

definition fromCTypeAndClaimContents ::
  "claim_helpers \<Rightarrow> jsval \<Rightarrow> jsval \<Rightarrow> jsval \<Rightarrow> error + Claim" where
  "fromCTypeAndClaimContents H ctypeInput claimContents claimOwner =
     andThen (readProp ctypeInput ''schema'') (\<lambda>schema.
       andThen (if \<not> falsy schema
                then (if \<not> verifyClaim H claimContents schema
                      then Inl ERROR_CLAIM_UNVERIFIABLE
                      else Inr ())
                else Inr ())
         (\<lambda>u. Claim_constructor H (object [(''cTypeHash'', get ctypeInput ''hash''),
                                              (''contents'', claimContents),
                                              (''owner'', claimOwner)])))"

section \<open>Message envelope\<close>

datatype MessageBodyType =
    REQUEST_TERMS
  | SUBMIT_TERMS
  | REJECT_TERMS
  | INITIATE_ATTESTATION
  | REQUEST_ATTESTATION_FOR_CLAIM
  | SUBMIT_ATTESTATION_FOR_CLAIM
  | REJECT_ATTESTATION_FOR_CLAIM
  | REQUEST_CLAIMS_FOR_CTYPES
  | SUBMIT_CLAIMS_FOR_CTYPES_CLASSIC
  | SUBMIT_CLAIMS_FOR_CTYPES_PE
  | ACCEPT_CLAIMS_FOR_CTYPES
  | REJECT_CLAIMS_FOR_CTYPES
  | REQUEST_ACCEPT_DELEGATION
  | SUBMIT_ACCEPT_DELEGATION
  | REJECT_ACCEPT_DELEGATION
  | INFORM_CREATE_DELEGATION

text \<open>The string value of each member of the enum.\<close>

fun tag :: "MessageBodyType \<Rightarrow> string" where
  "tag REQUEST_TERMS = ''request-terms''"
| "tag SUBMIT_TERMS = ''submit-terms''"
| "tag REJECT_TERMS = ''reject-terms''"
| "tag INITIATE_ATTESTATION = ''initiate-attestation''"
| "tag REQUEST_ATTESTATION_FOR_CLAIM = ''request-attestation-for-claim''"
| "tag SUBMIT_ATTESTATION_FOR_CLAIM = ''submit-attestation-for-claim''"
| "tag REJECT_ATTESTATION_FOR_CLAIM = ''reject-attestation-for-claim''"
| "tag REQUEST_CLAIMS_FOR_CTYPES = ''request-claims-for-ctypes''"
| "tag SUBMIT_CLAIMS_FOR_CTYPES_CLASSIC = ''submit-claims-for-ctypes-classic''"
| "tag SUBMIT_CLAIMS_FOR_CTYPES_PE = ''submit-claims-for-ctypes-pe''"
| "tag ACCEPT_CLAIMS_FOR_CTYPES = ''accept-claims-for-ctypes''"
| "tag REJECT_CLAIMS_FOR_CTYPES = ''reject-claims-for-ctypes''"
| "tag REQUEST_ACCEPT_DELEGATION = ''request-accept-delegation''"
| "tag SUBMIT_ACCEPT_DELEGATION = ''submit-accept-delegation''"
| "tag REJECT_ACCEPT_DELEGATION = ''reject-accept-delegation''"
| "tag INFORM_CREATE_DELEGATION = ''inform-create-delegation''"

text \<open>
  The encrypted envelope \<^verbatim>\<open>IEncryptedMessage\<close>, with the types its interface declares
  (\<^verbatim>\<open>string\<close>, and \<^verbatim>\<open>number\<close> as a real); an optional field is an \<open>option\<close>. A decrypted message, and an instance of the class
  \<^verbatim>\<open>Message\<close>, carry the same fields and the body, which is whatever \<^verbatim>\<open>JSON.parse\<close>
  returned: a run-time value.
\<close>

record IEncryptedMessage =
  messageId :: "string option"
  receivedAt :: "real option"
  message :: string
  nonce :: string
  createdAt :: real
  hash :: string
  signature :: string
  receiverAddress :: string
  senderAddress :: string
  senderBoxPublicKey :: string

record IMessage = IEncryptedMessage +
  body :: jsval

text \<open>
  The collaborators of the envelope that are not among the sources, as parameters:
  \<^verbatim>\<open>Crypto.hashStr\<close>, the signature check behind \<^verbatim>\<open>validateSignature\<close>, and three
  built-ins of the language: \<^verbatim>\<open>JSON.parse\<close> (\<open>None\<close> when it throws), \<^verbatim>\<open>JSON.stringify\<close>,
  and the conversion of a number to a string that \<^verbatim>\<open>+\<close> applies to \<^verbatim>\<open>createdAt\<close> when it
  is appended to a string (decimal digits for an integer of moderate size, exponent
  notation for a large one).
\<close>

record crypto =
  hashStr :: "string \<Rightarrow> string"
  verify :: "string \<Rightarrow> string \<Rightarrow> string \<Rightarrow> bool"
  JSON_parse :: "string \<Rightarrow> jsval option"
  JSON_stringify :: "jsval \<Rightarrow> string"
  Number_toString :: "real \<Rightarrow> string"

text \<open>
  An \<^verbatim>\<open>Identity\<close>: its address, its public encryption key and its three operations.
  \<^verbatim>\<open>decryptAsymmetricAsStr\<close> returns the plaintext, or \<^verbatim>\<open>false\<close> (\<open>None\<close>) when the box
  cannot be opened.
\<close>

record Identity =
  address :: string
  getBoxPublicKey :: string
  encryptAsymmetricAsStr :: "string \<Rightarrow> string \<Rightarrow> string \<times> string"
  decryptAsymmetricAsStr :: "string \<times> string \<Rightarrow> string \<Rightarrow> string option"
  signStr :: "string \<Rightarrow> string"

record IPublicIdentity =
  address :: string
  boxPublicKeyAsHex :: string

text \<open>
  Modelled from the spec: \<^verbatim>\<open>DataUtils.validateSignature\<close> is not among the sources. The
  specification has the signature verified over the hash against the claimed sender
  address, and a mismatch raises the signature error.
\<close>

definition validateSignature :: "crypto \<Rightarrow> string \<Rightarrow> string \<Rightarrow> string \<Rightarrow> error + unit" where
  "validateSignature C data sig signer =
     (if verify C data sig signer then Inr () else Inl ERROR_SIGNATURE_UNVERIFIABLE)"

text \<open>
  The callback of \<^verbatim>\<open>content.forEach\<close> in the third case of \<^verbatim>\<open>ensureOwnerIsSender\<close>, run
  over the elements in order; a throw inside the callback ends the loop.
\<close>

fun forEach_claim :: "jsval list \<Rightarrow> string \<Rightarrow> error + unit" where
  "forEach_claim [] senderAddress' = Inr ()"
| "forEach_claim (claim # rest) senderAddress' =
     andThen (readPath claim [''request'', ''claim'', ''owner'']) (\<lambda>claimOwner.
       if claimOwner \<noteq> JStr senderAddress'
       then Inl (ERROR_IDENTITY_MISMATCH ''Claims'' ''Sender'')
       else forEach_claim rest senderAddress')"

text \<open>
  \<^verbatim>\<open>ensureOwnerIsSender({ body, senderAddress })\<close>. The \<^verbatim>\<open>switch\<close> compares
  \<^verbatim>\<open>body.type\<close> with the string values of the enum by strict equality, and the owner with
  \<^verbatim>\<open>senderAddress\<close> by \<^verbatim>\<open>!==\<close>; strict equality with a string is equality of values.
  In the third case \<^verbatim>\<open>content.forEach\<close> is a function only when \<^verbatim>\<open>content\<close> is an array
  (a body that came out of \<^verbatim>\<open>JSON.parse\<close> holds no function), so on anything else the call
  throws.
\<close>

definition ensureOwnerIsSender :: "jsval \<Rightarrow> string \<Rightarrow> error + unit" where
  "ensureOwnerIsSender body' senderAddress' =
     andThen (readProp body' ''type'') (\<lambda>type.
       if type = JStr (tag REQUEST_ATTESTATION_FOR_CLAIM) then
         andThen (readPath body' [''content'', ''requestForAttestation'', ''claim'', ''owner''])
           (\<lambda>claimOwner.
             if claimOwner \<noteq> JStr senderAddress'
             then Inl (ERROR_IDENTITY_MISMATCH ''Claim'' ''Sender'')
             else Inr ())
       else if type = JStr (tag SUBMIT_ATTESTATION_FOR_CLAIM) then
         andThen (readPath body' [''content'', ''attestation'', ''owner''])
           (\<lambda>attestationOwner.
             if attestationOwner \<noteq> JStr senderAddress'
             then Inl (ERROR_IDENTITY_MISMATCH ''Attestation'' ''Sender'')
             else Inr ())
       else if type = JStr (tag SUBMIT_CLAIMS_FOR_CTYPES_CLASSIC) then
         andThen (readProp body' ''content'') (\<lambda>content.
           case content of
             JArr claims \<Rightarrow> forEach_claim claims senderAddress'
           | _ \<Rightarrow> Inl TypeError)
       else Inr ())"

text \<open>
  The calls a decryption makes to its collaborators, in the order it makes them; \<open>decrypt\<close>
  returns this log next to its result.
\<close>

datatype call =
    Call_hashStr
  | Call_validateSignature
  | Call_decryptAsymmetricAsStr
  | Call_JSON_parse
  | Call_ensureOwnerIsSender

definition ensureHashAndSignature ::
  "crypto \<Rightarrow> IEncryptedMessage \<Rightarrow> string \<Rightarrow> call list \<times> (error + unit)" where
  "ensureHashAndSignature C encrypted sender =
     (if hashStr C (message encrypted @ nonce encrypted @ Number_toString C (createdAt encrypted))
         \<noteq> hash encrypted
      then ([Call_hashStr],
            Inl (ERROR_NONCE_HASH_INVALID (hash encrypted) (nonce encrypted) ''Message''))
      else ([Call_hashStr, Call_validateSignature],
            validateSignature C (hash encrypted) (signature encrypted) sender))"

text \<open>
  \<^verbatim>\<open>Message.decrypt\<close>. Whatever is thrown inside the \<^verbatim>\<open>try\<close> block, by \<^verbatim>\<open>JSON.parse\<close> or by
  \<^verbatim>\<open>ensureOwnerIsSender\<close>, is caught and replaced by \<^verbatim>\<open>ERROR_PARSING_MESSAGE\<close>. The
  condition \<^verbatim>\<open>!decoded\<close> holds for \<^verbatim>\<open>false\<close> and for the empty string. The result
  \<^verbatim>\<open>{ ...encrypted, body: messageBody }\<close> has every field of the envelope and the body.
\<close>

definition decrypt ::
  "crypto \<Rightarrow> Identity \<Rightarrow> IEncryptedMessage \<Rightarrow> call list \<times> (error + IMessage)" where
  "decrypt C receiver encrypted =
     (case ensureHashAndSignature C encrypted (senderAddress encrypted) of
        (calls, Inl e) \<Rightarrow> (calls, Inl e)
      | (calls, Inr u) \<Rightarrow>
          (case decryptAsymmetricAsStr receiver (message encrypted, nonce encrypted)
                  (senderBoxPublicKey encrypted) of
             None \<Rightarrow> (calls @ [Call_decryptAsymmetricAsStr], Inl ERROR_DECODING_MESSAGE)
           | Some decoded \<Rightarrow>
               if decoded = [] then
                 (calls @ [Call_decryptAsymmetricAsStr], Inl ERROR_DECODING_MESSAGE)
               else
                 (case JSON_parse C decoded of
                    None \<Rightarrow>
                      (calls @ [Call_decryptAsymmetricAsStr, Call_JSON_parse],
                       Inl ERROR_PARSING_MESSAGE)
                  | Some messageBody \<Rightarrow>
                      (case ensureOwnerIsSender messageBody (senderAddress encrypted) of
                         Inl e \<Rightarrow>
                           (calls @ [Call_decryptAsymmetricAsStr, Call_JSON_parse,
                                     Call_ensureOwnerIsSender],
                            Inl ERROR_PARSING_MESSAGE)
                       | Inr u' \<Rightarrow>
                           (calls @ [Call_decryptAsymmetricAsStr, Call_JSON_parse,
                                     Call_ensureOwnerIsSender],
                            Inr \<lparr> messageId = messageId encrypted,
                                     receivedAt = receivedAt encrypted,
                                     message = message encrypted,
                                     nonce = nonce encrypted,
                                     createdAt = createdAt encrypted,
                                     hash = hash encrypted,
                                     signature = signature encrypted,
                                     receiverAddress = receiverAddress encrypted,
                                     senderAddress = senderAddress encrypted,
                                     senderBoxPublicKey = senderBoxPublicKey encrypted,
                                     body = messageBody \<rparr>)))))"

text \<open>
  The constructor of \<^verbatim>\<open>Message\<close>. \<^verbatim>\<open>decompressMessage\<close> (of \<^verbatim>\<open>Message.utils\<close>, not among
  the sources) and the clock \<^verbatim>\<open>Date.now()\<close> are parameters. The text that is encrypted
  is \<^verbatim>\<open>JSON.stringify(body)\<close> of the constructor's argument \<^verbatim>\<open>body\<close>, as the source has it.
\<close>

definition Message_constructor ::
  "crypto \<Rightarrow> (jsval \<Rightarrow> error + jsval) \<Rightarrow> real \<Rightarrow> jsval \<Rightarrow> Identity \<Rightarrow> IPublicIdentity
     \<Rightarrow> error + IMessage" where
  "Message_constructor C decompressMessage now body' sender receiver =
     andThen (if isArray body' then decompressMessage body' else Inr body') (\<lambda>this_body.
       let encryptedMessage =
             encryptAsymmetricAsStr sender (JSON_stringify C body') (boxPublicKeyAsHex receiver);
           this_message = fst encryptedMessage;
           this_nonce = snd encryptedMessage;
           hashInput = this_message @ this_nonce @ Number_toString C now;
           this_hash = hashStr C hashInput
       in Inr \<lparr> messageId = None,
                receivedAt = None,
                message = this_message,
                nonce = this_nonce,
                createdAt = now,
                hash = this_hash,
                signature = signStr sender this_hash,
                receiverAddress = IPublicIdentity.address receiver,
                senderAddress = Identity.address sender,
                senderBoxPublicKey = getBoxPublicKey sender,
                body = this_body \<rparr>)"

text \<open>\<^verbatim>\<open>Message.encrypt\<close>: the projection of an instance to the encrypted envelope.\<close>

definition encrypt :: "IMessage \<Rightarrow> IEncryptedMessage" where
  "encrypt this =
     \<lparr> messageId = messageId this,
       receivedAt = receivedAt this,
       message = message this,
       nonce = nonce this,
       createdAt = createdAt this,
       hash = hash this,
       signature = signature this,
       receiverAddress = receiverAddress this,
       senderAddress = senderAddress this,
       senderBoxPublicKey = senderBoxPublicKey this \<rparr>"

text \<open>
  The order of the calls of a decryption that passes every check, and names for the
  conditions \<^verbatim>\<open>ensureHashAndSignature\<close> and \<^verbatim>\<open>decrypt\<close> test: the comparison of the
  recomputed hash with the carried one, the verification of the signature over the hash
  against the sender's address, and the result of opening the box.
\<close>

definition verificationOrder :: "call list" where
  "verificationOrder = [Call_hashStr, Call_validateSignature, Call_decryptAsymmetricAsStr,
     Call_JSON_parse, Call_ensureOwnerIsSender]"

definition hashMatches :: "crypto \<Rightarrow> IEncryptedMessage \<Rightarrow> bool" where
  "hashMatches C e =
     (hashStr C (message e @ nonce e @ Number_toString C (createdAt e)) = hash e)"

definition signatureVerifies :: "crypto \<Rightarrow> IEncryptedMessage \<Rightarrow> bool" where
  "signatureVerifies C e = verify C (hash e) (signature e) (senderAddress e)"

definition decoded :: "Identity \<Rightarrow> IEncryptedMessage \<Rightarrow> string option" where
  "decoded receiver e =
     decryptAsymmetricAsStr receiver (message e, nonce e) (senderBoxPublicKey e)"

section \<open>Test doubles\<close>

text \<open>
  Deterministic stand-ins for the collaborators that are parameters above, used to run the
  definitions on concrete inputs. For the validators every string is well-formed. Of the
  two sets of claim helpers one has schema verifiers that reject every claim and the other
  has verifiers that accept every claim; in both the stand-in for \<^verbatim>\<open>ClaimUtils.errorCheck\<close>
  throws when the input has no owner.
\<close>

definition anyString :: validators where
  "anyString = \<lparr> validHash = (\<lambda>v. typeof v = ''string''),
                 validAddress = (\<lambda>v. typeof v = ''string'') \<rparr>"

definition rejectingVerifier :: claim_helpers where
  "rejectingVerifier =
     \<lparr> verifyClaimStructure = (\<lambda>claimContents schema. False),
       validateNestedSchemas = (\<lambda>schema nestedCType claimContents. False),
       claimErrorCheck = (\<lambda>claimInput.
          if falsy (get claimInput ''owner'') then Inl ERROR_OWNER_NOT_PROVIDED else Inr ()) \<rparr>"

definition acceptingVerifier :: claim_helpers where
  "acceptingVerifier =
     \<lparr> verifyClaimStructure = (\<lambda>claimContents schema. True),
       validateNestedSchemas = (\<lambda>schema nestedCType claimContents. True),
       claimErrorCheck = (\<lambda>claimInput.
          if falsy (get claimInput ''owner'') then Inl ERROR_OWNER_NOT_PROVIDED else Inr ()) \<rparr>"

definition sampleClaim :: jsval where
  "sampleClaim = object [(''cTypeHash'', JStr ''0xctype''),
                         (''contents'', object [(''name'', JStr ''Bob'')]),
                         (''owner'', JStr ''bob'')]"

text \<open>
  Message bodies: the submission of an attestation owned by the given address, the request
  for an attestation of a claim owned by the given address, the classic submission of a
  list of attested claims, one for each of the given owners in order, and the announcement
  of a delegation in its structured and in its compressed form.
\<close>

definition sampleAttestation :: "string \<Rightarrow> jsval" where
  "sampleAttestation attester =
     IAttestation (JStr ''0xclaim'') (JStr ''0xctype'') (JStr attester) (JBool False) JNull"

definition submitAttestationBody :: "string \<Rightarrow> jsval" where
  "submitAttestationBody attester =
     object [(''content'', object [(''attestation'', sampleAttestation attester)]),
             (''type'', JStr (tag SUBMIT_ATTESTATION_FOR_CLAIM))]"

definition requestAttestationBody :: "string \<Rightarrow> jsval" where
  "requestAttestationBody claimer =
     object [(''content'',
              object [(''requestForAttestation'',
                       object [(''claim'',
                                object [(''cTypeHash'', JStr ''0xctype''),
                                        (''contents'', object [(''name'', JStr ''Bob'')]),
                                        (''owner'', JStr claimer)])])]),
             (''type'', JStr (tag REQUEST_ATTESTATION_FOR_CLAIM))]"

definition attestedClaim :: "string \<Rightarrow> jsval" where
  "attestedClaim claimer =
     object [(''request'',
              object [(''claim'',
                       object [(''cTypeHash'', JStr ''0xctype''),
                               (''contents'', object [(''name'', JStr ''Bob'')]),
                               (''owner'', JStr claimer)])]),
             (''attestation'', sampleAttestation ''alice'')]"

definition submitClaimsBody :: "string list \<Rightarrow> jsval" where
  "submitClaimsBody claimers =
     object [(''content'', JArr (map attestedClaim claimers)),
             (''type'', JStr (tag SUBMIT_CLAIMS_FOR_CTYPES_CLASSIC))]"

definition informCreateDelegationBody :: jsval where
  "informCreateDelegationBody =
     object [(''content'', object [(''delegationId'', JStr ''0xdelegation''),
                                   (''isPCR'', JBool False)]),
             (''type'', JStr (tag INFORM_CREATE_DELEGATION))]"

definition compressedInformCreateDelegationBody :: jsval where
  "compressedInformCreateDelegationBody =
     JArr [JStr (tag INFORM_CREATE_DELEGATION), JArr [JStr ''0xdelegation'', JBool False]]"

text \<open>
  Modelled from the spec: \<^verbatim>\<open>decompressMessage\<close> of \<^verbatim>\<open>Message.utils\<close> is not among the
  sources. This is its branch for the kind \<^verbatim>\<open>inform-create-delegation\<close>, as the tests of
  \<^verbatim>\<open>Message.utils.spec.ts\<close> fix it; any other input is rejected as an unknown kind.
\<close>

fun decompressInformCreateDelegation :: "jsval \<Rightarrow> error + jsval" where
  "decompressInformCreateDelegation (JArr [JStr kind, JArr [delegationId, isPCR]]) =
     (if kind = tag INFORM_CREATE_DELEGATION
      then Inr (object [(''content'', object [(''delegationId'', delegationId),
                                              (''isPCR'', isPCR)]),
                        (''type'', JStr kind)])
      else Inl ERROR_MESSAGE_BODY_MALFORMED)"
| "decompressInformCreateDelegation v = Inl ERROR_MESSAGE_BODY_MALFORMED"

text \<open>
  The decimal digits of an integer, which is how JavaScript renders an integer of magnitude
  below \<open>10\<^sup>2\<^sup>1\<close> as a string.
\<close>

definition digit :: "nat \<Rightarrow> char" where
  "digit d = ''0123456789'' ! d"

fun natToString :: "nat \<Rightarrow> string" where
  "natToString n = (if n < 10 then [digit n] else natToString (n div 10) @ [digit (n mod 10)])"

declare natToString.simps [simp del]

definition decimal :: "int \<Rightarrow> string" where
  "decimal i = (if i < 0 then CHR ''-'' # natToString (nat (- i)) else natToString (nat i))"

text \<open>
  A parser and a serialiser that know the texts of the bodies above, a hash and a signature
  scheme that only wrap their input, numbers rendered by the decimal digits of their integer
  part, and identities whose box is the plaintext behind a fixed prefix.
\<close>

definition fakeParse :: "string \<Rightarrow> jsval option" where
  "fakeParse text =
     (if text = ''attestation by alice'' then Some (submitAttestationBody ''alice'')
      else if text = ''attestation by bob'' then Some (submitAttestationBody ''bob'')
      else if text = ''inform-create-delegation'' then Some informCreateDelegationBody
      else if text = ''compressed inform-create-delegation''
      then Some compressedInformCreateDelegationBody
      else None)"

definition fakeStringify :: "jsval \<Rightarrow> string" where
  "fakeStringify v =
     (if v = compressedInformCreateDelegationBody then ''compressed inform-create-delegation''
      else if v = informCreateDelegationBody then ''inform-create-delegation''
      else ''null'')"

definition fakeCrypto :: crypto where
  "fakeCrypto =
     \<lparr> hashStr = (\<lambda>s. ''hash('' @ s @ '')''),
       verify = (\<lambda>data sig signer. sig = ''signed('' @ signer @ '','' @ data @ '')''),
       JSON_parse = fakeParse,
       JSON_stringify = fakeStringify,
       Number_toString = (\<lambda>x. decimal \<lfloor>x\<rfloor>) \<rparr>"

definition fakeIdentity :: "string \<Rightarrow> Identity" where
  "fakeIdentity name =
     \<lparr> Identity.address = name,
       getBoxPublicKey = ''box-'' @ name,
       encryptAsymmetricAsStr = (\<lambda>plain receiverKey. (''sealed:'' @ plain, ''nonce'')),
       decryptAsymmetricAsStr = (\<lambda>ea senderKey.
          if take 7 (fst ea) = ''sealed:'' then Some (drop 7 (fst ea)) else None),
       signStr = (\<lambda>s. ''signed('' @ name @ '','' @ s @ '')'') \<rparr>"

definition fakePublicIdentity :: "string \<Rightarrow> IPublicIdentity" where
  "fakePublicIdentity name = \<lparr> address = name, boxPublicKeyAsHex = ''box-'' @ name \<rparr>"

text \<open>The envelope a sender of that name produces for a plaintext at a fixed time.\<close>

definition fakeEnvelope :: "string \<Rightarrow> string \<Rightarrow> IEncryptedMessage" where
  "fakeEnvelope sender text =
     \<lparr> messageId = None,
       receivedAt = None,
       message = ''sealed:'' @ text,
       nonce = ''nonce'',
       createdAt = 1600000000000,
       hash = ''hash(sealed:'' @ text @ ''nonce1600000000000)'',
       signature = ''signed('' @ sender @ '',hash(sealed:'' @ text @ ''nonce1600000000000))'',
       receiverAddress = ''bob'',
       senderAddress = sender,
       senderBoxPublicKey = ''box-'' @ sender \<rparr>"


section \<open>Basic facts\<close>

lemma get_object [simp]:
  "get (object kvs) k = (case map_of kvs k of None \<Rightarrow> JUndefined | Some v \<Rightarrow> v)"
  by (simp add: object_def)

lemma nullish_object [simp]: "\<not> nullish (object kvs)"
  by (simp add: object_def)

lemma falsy_object [simp]: "\<not> falsy (object kvs)"
  by (simp add: object_def)

lemma andThen_Inr [simp]: "andThen (Inr x) f = f x"
  by (simp add: andThen_def)

lemma andThen_Inl [simp]: "andThen (Inl e) f = Inl e"
  by (simp add: andThen_def)

lemma cost_round_trip:
  assumes "\<not> falsy gross" "\<not> falsy net" "\<not> falsy tax"
  shows "andThen (compressCost (ICostBreakdown gross net tax)) decompressCost
           = Inr (ICostBreakdown gross net tax)"
    and "andThen (decompressCost (JArr [gross, net, tax])) compressCost
           = Inr (JArr [gross, net, tax])"
  using assms by (simp_all add: compressCost_def ICostBreakdown_def)

lemma attestation_round_trip:
  assumes "errorCheck V (IAttestation ch ct ow rv d) = Inr ()"
  shows "andThen (compress V (IAttestation ch ct ow rv d)) decompress
           = Inr (IAttestation ch ct ow rv d)"
    and "andThen (decompress (JArr [ch, ct, ow, rv, d])) (compress V)
           = Inr (JArr [ch, ct, ow, rv, d])"
  using assms by (simp_all add: compress_def IAttestation_def)

lemma quote_round_trip:
  assumes "\<not> falsy aa" "\<not> falsy ct" "\<not> falsy cur" "\<not> falsy tc" "\<not> falsy tf"
    and "\<not> falsy gross" "\<not> falsy net" "\<not> falsy tax"
  shows "andThen (compressQuote (IQuote aa ct (ICostBreakdown gross net tax) cur tc tf))
           decompressQuote
           = Inr (IQuote aa ct (ICostBreakdown gross net tax) cur tc tf)"
    and "andThen (decompressQuote (JArr [aa, ct, JArr [gross, net, tax], cur, tc, tf]))
           compressQuote
           = Inr (JArr [aa, ct, JArr [gross, net, tax], cur, tc, tf])"
  using assms
  by (simp_all add: compressQuote_def compressCost_def IQuote_def ICostBreakdown_def)

lemma attester_signed_quote_round_trip:
  assumes "\<not> falsy aa" "\<not> falsy ct" "\<not> falsy cur" "\<not> falsy tc" "\<not> falsy tf"
    and "\<not> falsy gross" "\<not> falsy net" "\<not> falsy tax" and "\<not> falsy asig"
  shows "andThen (compressAttesterSignedQuote
           (IQuoteAttesterSigned aa ct (ICostBreakdown gross net tax) cur tc tf asig))
           decompressAttesterSignedQuote
           = Inr (IQuoteAttesterSigned aa ct (ICostBreakdown gross net tax) cur tc tf asig)"
    and "andThen (decompressAttesterSignedQuote
           (JArr [aa, ct, JArr [gross, net, tax], cur, tc, tf, asig]))
           compressAttesterSignedQuote
           = Inr (JArr [aa, ct, JArr [gross, net, tax], cur, tc, tf, asig])"
  using assms
  by (simp_all add: compressAttesterSignedQuote_def compressCost_def
      IQuoteAttesterSigned_def ICostBreakdown_def)

lemma quote_agreement_round_trip:
  assumes "\<not> falsy aa" "\<not> falsy ct" "\<not> falsy cur" "\<not> falsy tc" "\<not> falsy tf"
    and "\<not> falsy gross" "\<not> falsy net" "\<not> falsy tax" and "\<not> falsy asig"
  shows "andThen (compressQuoteAgreement
           (IQuoteAgreement aa ct (ICostBreakdown gross net tax) cur tc tf asig csig rh))
           decompressQuoteAgreement
           = Inr (IQuoteAgreement aa ct (ICostBreakdown gross net tax) cur tc tf asig csig rh)"
    and "andThen (decompressQuoteAgreement
           (JArr [aa, ct, JArr [gross, net, tax], cur, tc, tf, asig, csig, rh]))
           compressQuoteAgreement
           = Inr (JArr [aa, ct, JArr [gross, net, tax], cur, tc, tf, asig, csig, rh])"
  using assms
  by (simp_all add: compressQuoteAgreement_def compressCost_def
      IQuoteAgreement_def ICostBreakdown_def)



lemma decompress_cases:
  "(case decompress a of
      Inl e \<Rightarrow> e = ERROR_DECOMPRESSION_ARRAY (Some ''Attestation'') \<and> \<not> isArrayOfLength a 5
    | Inr r \<Rightarrow> isArrayOfLength a 5 \<and>
        r = IAttestation (element a 0) (element a 1) (element a 2) (element a 3) (element a 4))"
  by (cases a) (simp_all add: IAttestation_def)

lemma decompressCost_cases:
  "(case decompressCost a of
      Inl e \<Rightarrow> e = ERROR_DECOMPRESSION_ARRAY (Some ''Cost Breakdown'') \<and> \<not> isArrayOfLength a 3
    | Inr r \<Rightarrow> isArrayOfLength a 3 \<and>
        r = ICostBreakdown (element a 0) (element a 1) (element a 2))"
  by (cases a) (simp_all add: ICostBreakdown_def)

lemma decompressQuote_cases:
  "(case decompressQuote q of
      Inl e \<Rightarrow> kind_of e = Some ArrayShapeMismatch \<and>
               \<not> (isArrayOfLength q 6 \<and> isArrayOfLength (element q 2) 3)
    | Inr r \<Rightarrow> isArrayOfLength q 6 \<and> isArrayOfLength (element q 2) 3)"
  using decompressCost_cases[of "element q 2"]
  by (cases q) (auto simp: andThen_def split: sum.splits)

lemma decompressAttesterSignedQuote_cases:
  "(case decompressAttesterSignedQuote q of
      Inl e \<Rightarrow> kind_of e = Some ArrayShapeMismatch \<and>
               \<not> (isArrayOfLength q 7 \<and> isArrayOfLength (element q 2) 3)
    | Inr r \<Rightarrow> isArrayOfLength q 7 \<and> isArrayOfLength (element q 2) 3)"
  using decompressCost_cases[of "element q 2"]
  by (cases q) (auto simp: andThen_def split: sum.splits)

lemma decompressQuoteAgreement_cases:
  "(case decompressQuoteAgreement q of
      Inl e \<Rightarrow> kind_of e = Some ArrayShapeMismatch \<and>
               \<not> (isArrayOfLength q 9 \<and> isArrayOfLength (element q 2) 3)
    | Inr r \<Rightarrow> isArrayOfLength q 9 \<and> isArrayOfLength (element q 2) 3)"
  using decompressCost_cases[of "element q 2"]
  by (cases q) (auto simp: andThen_def split: sum.splits)

lemma errorCheck_kind:
  "\<not> nullish r \<Longrightarrow> errorCheck V r = Inl e \<Longrightarrow> kind_of e = Some MalformedRecord"
  by (auto simp: errorCheck_def validateHash_def validateAddress_def andThen_def
      split: if_splits)

lemma errorCheck_required:
  "falsy (get r ''cTypeHash'') \<or> falsy (get r ''claimHash'') \<or> falsy (get r ''owner'')
   \<Longrightarrow> isl (errorCheck V r)"
  by (auto simp: errorCheck_def validateHash_def validateAddress_def andThen_def
      split: if_splits)

lemma compress_required:
  assumes "\<not> nullish r"
    and "falsy (get r ''cTypeHash'') \<or> falsy (get r ''claimHash'') \<or> falsy (get r ''owner'')"
  shows "\<exists>e. compress V r = Inl e \<and> kind_of e = Some MalformedRecord"
proof -
  from errorCheck_required[OF assms(2), of V] obtain e where e: "errorCheck V r = Inl e"
    by (cases "errorCheck V r") auto
  with errorCheck_kind[OF assms(1)] show ?thesis
    by (simp add: compress_def)
qed

lemma compress_revoked_false:
  assumes "\<not> nullish r"
    and "\<not> falsy (get r ''cTypeHash'')" "validHash V (get r ''cTypeHash'')"
    and "\<not> falsy (get r ''claimHash'')" "validHash V (get r ''claimHash'')"
    and "\<not> falsy (get r ''owner'')" "validAddress V (get r ''owner'')"
    and "get r ''revoked'' = JBool False"
  shows "compress V r = Inr (JArr [get r ''claimHash'', get r ''cTypeHash'', get r ''owner'',
           JBool False, get r ''delegationId''])"
  using assms
  by (simp add: compress_def errorCheck_def validateHash_def validateAddress_def
      delegationIdGuard_def js_not_def)

lemma compressQuote_required:
  assumes "\<not> nullish q"
    and "falsy (get q ''attesterAddress'') \<or> falsy (get q ''cTypeHash'') \<or>
         falsy (get q ''cost'') \<or> falsy (get q ''currency'') \<or>
         falsy (get q ''termsAndConditions'') \<or> falsy (get q ''timeframe'')"
  shows "compressQuote q = Inl (ERROR_COMPRESS_OBJECT q ''Quote'')"
  using assms by (auto simp: compressQuote_def)

lemma compressCost_required:
  assumes "\<not> nullish c"
    and "falsy (get c ''gross'') \<or> falsy (get c ''net'') \<or> falsy (get c ''tax'')"
  shows "compressCost c = Inl (ERROR_COMPRESS_OBJECT c ''Cost Breakdown'')"
  using assms by (auto simp: compressCost_def)


lemma delegationIdGuard_False: "\<not> delegationIdGuard d"
  by (simp add: delegationIdGuard_def js_not_def)

section \<open>Facts about decryption\<close>

lemma ensureHashAndSignature_cases:
  "ensureHashAndSignature C e s =
     (if \<not> hashMatches C e
      then ([Call_hashStr], Inl (ERROR_NONCE_HASH_INVALID (hash e) (nonce e) ''Message''))
      else if \<not> verify C (hash e) (signature e) s
      then ([Call_hashStr, Call_validateSignature], Inl ERROR_SIGNATURE_UNVERIFIABLE)
      else ([Call_hashStr, Call_validateSignature], Inr ()))"
  by (simp add: ensureHashAndSignature_def hashMatches_def validateSignature_def)

lemma decrypt_hash_mismatch:
  "\<not> hashMatches C e \<Longrightarrow>
   decrypt C r e = ([Call_hashStr], Inl (ERROR_NONCE_HASH_INVALID (hash e) (nonce e) ''Message''))"
  by (simp add: decrypt_def ensureHashAndSignature_cases)

lemma decrypt_bad_signature:
  "hashMatches C e \<Longrightarrow> \<not> signatureVerifies C e \<Longrightarrow>
   decrypt C r e = ([Call_hashStr, Call_validateSignature], Inl ERROR_SIGNATURE_UNVERIFIABLE)"
  by (simp add: decrypt_def ensureHashAndSignature_cases signatureVerifies_def)

lemma decrypt_undecodable:
  "hashMatches C e \<Longrightarrow> signatureVerifies C e \<Longrightarrow> decoded r e = None \<or> decoded r e = Some [] \<Longrightarrow>
   decrypt C r e = ([Call_hashStr, Call_validateSignature, Call_decryptAsymmetricAsStr],
                    Inl ERROR_DECODING_MESSAGE)"
  by (auto simp: decrypt_def ensureHashAndSignature_cases signatureVerifies_def decoded_def)

lemma decrypt_unparsable:
  "hashMatches C e \<Longrightarrow> signatureVerifies C e \<Longrightarrow> decoded r e = Some d \<Longrightarrow> d \<noteq> [] \<Longrightarrow>
   JSON_parse C d = None \<Longrightarrow>
   decrypt C r e = ([Call_hashStr, Call_validateSignature, Call_decryptAsymmetricAsStr,
                     Call_JSON_parse], Inl ERROR_PARSING_MESSAGE)"
  by (auto simp: decrypt_def ensureHashAndSignature_cases signatureVerifies_def decoded_def)

lemma decrypt_owner_rejected:
  "hashMatches C e \<Longrightarrow> signatureVerifies C e \<Longrightarrow> decoded r e = Some d \<Longrightarrow> d \<noteq> [] \<Longrightarrow>
   JSON_parse C d = Some b \<Longrightarrow> ensureOwnerIsSender b (senderAddress e) = Inl err \<Longrightarrow>
   decrypt C r e = (verificationOrder, Inl ERROR_PARSING_MESSAGE)"
  by (auto simp: decrypt_def ensureHashAndSignature_cases signatureVerifies_def decoded_def
      verificationOrder_def)

lemma decrypt_accepted:
  "hashMatches C e \<Longrightarrow> signatureVerifies C e \<Longrightarrow> decoded r e = Some d \<Longrightarrow> d \<noteq> [] \<Longrightarrow>
   JSON_parse C d = Some b \<Longrightarrow> ensureOwnerIsSender b (senderAddress e) = Inr () \<Longrightarrow>
   decrypt C r e = (verificationOrder,
     Inr \<lparr> messageId = messageId e, receivedAt = receivedAt e, message = message e,
           nonce = nonce e, createdAt = createdAt e, hash = hash e, signature = signature e,
           receiverAddress = receiverAddress e, senderAddress = senderAddress e,
           senderBoxPublicKey = senderBoxPublicKey e, body = b \<rparr>)"
  by (auto simp: decrypt_def ensureHashAndSignature_cases signatureVerifies_def decoded_def
      verificationOrder_def)

lemma decrypt_log_prefix: "prefix (fst (decrypt C r e)) verificationOrder"
  by (auto simp: decrypt_def ensureHashAndSignature_cases verificationOrder_def
      split: option.splits sum.splits)

lemma decrypt_decrypts_after_checks:
  "Call_decryptAsymmetricAsStr \<in> set (fst (decrypt C r e)) \<Longrightarrow>
   hashMatches C e \<and> signatureVerifies C e"
  by (auto simp: decrypt_def ensureHashAndSignature_cases signatureVerifies_def
      split: option.splits sum.splits if_splits)

lemma ensureOwnerIsSender_submit:
  assumes "readProp b ''type'' = Inr (JStr (tag SUBMIT_ATTESTATION_FOR_CLAIM))"
    and "readPath b [''content'', ''attestation'', ''owner''] = Inr ow"
  shows "ensureOwnerIsSender b s =
           (if ow \<noteq> JStr s then Inl (ERROR_IDENTITY_MISMATCH ''Attestation'' ''Sender'')
            else Inr ())"
  using assms by (simp add: ensureOwnerIsSender_def)

lemma forEach_claim_first:
  "readPath c [''request'', ''claim'', ''owner''] = Inr ow \<Longrightarrow> ow \<noteq> JStr s \<Longrightarrow>
   forEach_claim (c # rest) s = Inl (ERROR_IDENTITY_MISMATCH ''Claims'' ''Sender'')"
  by simp


lemma forEach_claim_accepts:
  "(forEach_claim cs s = Inr ()) =
   (\<forall>c\<in>set cs. readPath c [''request'', ''claim'', ''owner''] = Inr (JStr s))"
proof (induction cs)
  case Nil
  show ?case by simp
next
  case (Cons c cs)
  show ?case
  proof (cases "readPath c [''request'', ''claim'', ''owner'']")
    case (Inl e)
    then show ?thesis by (simp del: readPath.simps)
  next
    case (Inr ow)
    with Cons show ?thesis by (simp del: readPath.simps)
  qed
qed

lemma forEach_claim_rejects:
  assumes "\<forall>c\<in>set cs. \<exists>ow. readPath c [''request'', ''claim'', ''owner''] = Inr ow"
    and "\<exists>c\<in>set cs. readPath c [''request'', ''claim'', ''owner''] \<noteq> Inr (JStr s)"
  shows "forEach_claim cs s = Inl (ERROR_IDENTITY_MISMATCH ''Claims'' ''Sender'')"
  using assms
proof (induction cs)
  case Nil
  then show ?case by simp
next
  case (Cons c cs)
  from Cons.prems(1) obtain ow where ow: "readPath c [''request'', ''claim'', ''owner''] = Inr ow"
    by auto
  show ?case
  proof (cases "ow = JStr s")
    case True
    with ow Cons.prems have "\<forall>c\<in>set cs. \<exists>ow. readPath c [''request'', ''claim'', ''owner''] = Inr ow"
      and "\<exists>c\<in>set cs. readPath c [''request'', ''claim'', ''owner''] \<noteq> Inr (JStr s)"
      by (auto simp del: readPath.simps)
    from Cons.IH [OF this] ow True show ?thesis
      by (simp del: readPath.simps)
  next
    case False
    with ow show ?thesis by (simp del: readPath.simps)
  qed
qed

lemma ensureOwnerIsSender_classic:
  assumes "readProp b ''type'' = Inr (JStr (tag SUBMIT_CLAIMS_FOR_CTYPES_CLASSIC))"
    and "readProp b ''content'' = Inr (JArr cs)"
  shows "ensureOwnerIsSender b s = forEach_claim cs s"
  using assms by (simp add: ensureOwnerIsSender_def)

lemma ensureOwnerIsSender_request:
  assumes "readProp b ''type'' = Inr (JStr (tag REQUEST_ATTESTATION_FOR_CLAIM))"
    and "readPath b [''content'', ''requestForAttestation'', ''claim'', ''owner''] = Inr ow"
  shows "ensureOwnerIsSender b s =
           (if ow \<noteq> JStr s then Inl (ERROR_IDENTITY_MISMATCH ''Claim'' ''Sender'')
            else Inr ())"
  using assms by (simp add: ensureOwnerIsSender_def)

section \<open>Facts about the test doubles\<close>

lemma fake_Number_toString:
  "Number_toString fakeCrypto 1600000000000 = ''1600000000000''"
  "Number_toString fakeCrypto 1600000000001 = ''1600000000001''"
  by (simp_all add: fakeCrypto_def decimal_def natToString.simps digit_def)

lemma fake_hashMatches: "hashMatches fakeCrypto (fakeEnvelope s t)"
  by (simp add: hashMatches_def fakeEnvelope_def fake_Number_toString) (simp add: fakeCrypto_def)

lemma fake_signatureVerifies: "signatureVerifies fakeCrypto (fakeEnvelope s t)"
  by (simp add: signatureVerifies_def fakeCrypto_def fakeEnvelope_def)

lemma fake_decoded: "decoded (fakeIdentity n) (fakeEnvelope s t) = Some t"
  by (simp add: decoded_def fakeIdentity_def fakeEnvelope_def)

lemma fake_sender: "senderAddress (fakeEnvelope s t) = s"
  by (simp add: fakeEnvelope_def)

lemma submit_owner:
  "readProp (submitAttestationBody a) ''type'' = Inr (JStr (tag SUBMIT_ATTESTATION_FOR_CLAIM))"
  "readPath (submitAttestationBody a) [''content'', ''attestation'', ''owner''] = Inr (JStr a)"
  by (simp_all add: submitAttestationBody_def sampleAttestation_def IAttestation_def readProp_def)

lemma fake_parse_alice:
  "JSON_parse fakeCrypto ''attestation by alice'' = Some (submitAttestationBody ''alice'')"
  by (simp add: fakeCrypto_def fakeParse_def)

lemma fake_parse_bob:
  "JSON_parse fakeCrypto ''attestation by bob'' = Some (submitAttestationBody ''bob'')"
  by (simp add: fakeCrypto_def fakeParse_def)

lemma sample_owner_accepted:
  "ensureOwnerIsSender (submitAttestationBody ''alice'')
     (senderAddress (fakeEnvelope ''alice'' ''attestation by alice'')) = Inr ()"
  by (simp add: ensureOwnerIsSender_submit [OF submit_owner] fake_sender)

lemma sample_decrypt:
  "snd (decrypt fakeCrypto (fakeIdentity ''bob'') (fakeEnvelope ''alice'' ''attestation by alice''))
   = Inr \<lparr> messageId = None, receivedAt = None,
           message = ''sealed:attestation by alice'', nonce = ''nonce'',
           createdAt = 1600000000000,
           hash = ''hash(sealed:attestation by alicenonce1600000000000)'',
           signature = ''signed(alice,hash(sealed:attestation by alicenonce1600000000000))'',
           receiverAddress = ''bob'', senderAddress = ''alice'',
           senderBoxPublicKey = ''box-alice'', body = submitAttestationBody ''alice'' \<rparr>"
proof -
  have "''attestation by alice'' \<noteq> []"
    by simp
  from decrypt_accepted [OF fake_hashMatches fake_signatureVerifies fake_decoded this
      fake_parse_alice sample_owner_accepted, of "''bob''"]
  show ?thesis
    by (simp add: fakeEnvelope_def)
qed

lemma fake_tampered:
  "\<not> hashMatches fakeCrypto ((fakeEnvelope s t)\<lparr> createdAt := 1600000000001 \<rparr>)"
  by (simp add: hashMatches_def fakeEnvelope_def fake_Number_toString) (simp add: fakeCrypto_def)

lemma fake_forged:
  "hashMatches fakeCrypto ((fakeEnvelope ''alice'' t)\<lparr> senderAddress := ''mallory'' \<rparr>)"
  "\<not> signatureVerifies fakeCrypto ((fakeEnvelope ''alice'' t)\<lparr> senderAddress := ''mallory'' \<rparr>)"
  by (simp_all add: hashMatches_def signatureVerifies_def fakeEnvelope_def
      fake_Number_toString) (simp_all add: fakeCrypto_def)

lemma fake_parse_garbage: "JSON_parse fakeCrypto ''{ not json'' = None"
  by (simp add: fakeCrypto_def fakeParse_def)

lemma sample_owner_rejected:
  "ensureOwnerIsSender (submitAttestationBody ''bob'')
     (senderAddress (fakeEnvelope ''alice'' ''attestation by bob''))
   = Inl (ERROR_IDENTITY_MISMATCH ''Attestation'' ''Sender'')"
  by (simp add: ensureOwnerIsSender_submit [OF submit_owner] fake_sender)

lemma request_owner:
  "readProp (requestAttestationBody a) ''type'' = Inr (JStr (tag REQUEST_ATTESTATION_FOR_CLAIM))"
  "readPath (requestAttestationBody a) [''content'', ''requestForAttestation'', ''claim'', ''owner'']
     = Inr (JStr a)"
  by (simp_all add: requestAttestationBody_def readProp_def)

lemma attestedClaim_owner:
  "readPath (attestedClaim a) [''request'', ''claim'', ''owner''] = Inr (JStr a)"
  by (simp add: attestedClaim_def readProp_def)

lemma classic_owner:
  "readProp (submitClaimsBody as) ''type'' = Inr (JStr (tag SUBMIT_CLAIMS_FOR_CTYPES_CLASSIC))"
  "readProp (submitClaimsBody as) ''content'' = Inr (JArr (map attestedClaim as))"
  by (simp_all add: submitClaimsBody_def readProp_def)

lemma inform_kind:
  "readProp informCreateDelegationBody ''type'' = Inr (JStr (tag INFORM_CREATE_DELEGATION))"
  by (simp add: informCreateDelegationBody_def readProp_def)

section \<open>The claims about the codecs\<close>

text \<open>
  C4. Round trip of the record codecs. For every valid record of the types Attestation
  (valid: \<open>errorCheck\<close> accepts it), CostBreakdown, Quote, AttesterSignedQuote and
  QuoteAgreement (valid: the fields the compressor requires are truthy), decompressing the
  compressed record gives the record back; and for the well-formed tuple of the right arity
  with the same elements, compressing the decompressed tuple gives the tuple back.
\<close>

theorem codec_round_trip:
  "(errorCheck V (IAttestation claimHash ct ow revoked delegationId) = Inr () \<longrightarrow>
      andThen (compress V (IAttestation claimHash ct ow revoked delegationId)) decompress
        = Inr (IAttestation claimHash ct ow revoked delegationId) \<and>
      andThen (decompress (JArr [claimHash, ct, ow, revoked, delegationId])) (compress V)
        = Inr (JArr [claimHash, ct, ow, revoked, delegationId]))
   \<and> (\<not> falsy gross \<and> \<not> falsy net \<and> \<not> falsy tax \<longrightarrow>
      andThen (compressCost (ICostBreakdown gross net tax)) decompressCost
        = Inr (ICostBreakdown gross net tax) \<and>
      andThen (decompressCost (JArr [gross, net, tax])) compressCost
        = Inr (JArr [gross, net, tax]))
   \<and> (\<not> falsy aa \<and> \<not> falsy ct \<and> \<not> falsy cur \<and> \<not> falsy tc \<and> \<not> falsy tf \<and>
       \<not> falsy gross \<and> \<not> falsy net \<and> \<not> falsy tax \<longrightarrow>
      andThen (compressQuote (IQuote aa ct (ICostBreakdown gross net tax) cur tc tf))
          decompressQuote
        = Inr (IQuote aa ct (ICostBreakdown gross net tax) cur tc tf) \<and>
      andThen (decompressQuote (JArr [aa, ct, JArr [gross, net, tax], cur, tc, tf]))
          compressQuote
        = Inr (JArr [aa, ct, JArr [gross, net, tax], cur, tc, tf]))
   \<and> (\<not> falsy aa \<and> \<not> falsy ct \<and> \<not> falsy cur \<and> \<not> falsy tc \<and> \<not> falsy tf \<and>
       \<not> falsy gross \<and> \<not> falsy net \<and> \<not> falsy tax \<and> \<not> falsy asig \<longrightarrow>
      andThen (compressAttesterSignedQuote
                 (IQuoteAttesterSigned aa ct (ICostBreakdown gross net tax) cur tc tf asig))
          decompressAttesterSignedQuote
        = Inr (IQuoteAttesterSigned aa ct (ICostBreakdown gross net tax) cur tc tf asig) \<and>
      andThen (decompressAttesterSignedQuote
                 (JArr [aa, ct, JArr [gross, net, tax], cur, tc, tf, asig]))
          compressAttesterSignedQuote
        = Inr (JArr [aa, ct, JArr [gross, net, tax], cur, tc, tf, asig]))
   \<and> (\<not> falsy aa \<and> \<not> falsy ct \<and> \<not> falsy cur \<and> \<not> falsy tc \<and> \<not> falsy tf \<and>
       \<not> falsy gross \<and> \<not> falsy net \<and> \<not> falsy tax \<and> \<not> falsy asig \<longrightarrow>
      andThen (compressQuoteAgreement
                 (IQuoteAgreement aa ct (ICostBreakdown gross net tax) cur tc tf asig csig rh))
          decompressQuoteAgreement
        = Inr (IQuoteAgreement aa ct (ICostBreakdown gross net tax) cur tc tf asig csig rh) \<and>
      andThen (decompressQuoteAgreement
                 (JArr [aa, ct, JArr [gross, net, tax], cur, tc, tf, asig, csig, rh]))
          compressQuoteAgreement
        = Inr (JArr [aa, ct, JArr [gross, net, tax], cur, tc, tf, asig, csig, rh]))"
proof (intro conjI impI)
  assume "errorCheck V (IAttestation claimHash ct ow revoked delegationId) = Inr ()"
  then show
    "andThen (compress V (IAttestation claimHash ct ow revoked delegationId)) decompress
       = Inr (IAttestation claimHash ct ow revoked delegationId)"
    "andThen (decompress (JArr [claimHash, ct, ow, revoked, delegationId])) (compress V)
       = Inr (JArr [claimHash, ct, ow, revoked, delegationId])"
    by (rule attestation_round_trip)+
qed (simp_all only: cost_round_trip quote_round_trip attester_signed_quote_round_trip
      quote_agreement_round_trip not_False_eq_True)

theorem codec_round_trip_witness:
  "errorCheck anyString
     (IAttestation (JStr ''0xclaim'') (JStr ''0xctype'') (JStr ''alice'') (JBool False) JNull)
     = Inr ()
   \<and> andThen (compress anyString
        (IAttestation (JStr ''0xclaim'') (JStr ''0xctype'') (JStr ''alice'') (JBool False) JNull))
        decompress
      = Inr (IAttestation (JStr ''0xclaim'') (JStr ''0xctype'') (JStr ''alice'') (JBool False)
               JNull)
   \<and> andThen (decompressCost (JArr [JNum 233, JNum 210, JNum 23])) compressCost
      = Inr (JArr [JNum 233, JNum 210, JNum 23])
   \<and> andThen (compressQuote
        (IQuote (JStr ''alice'') (JStr ''0xctype'')
           (ICostBreakdown (JNum 233) (JNum 210) (JNum 23)) (JStr ''Euro'') (JStr ''terms'')
           (JStr ''2020-01-01'')))
        decompressQuote
      = Inr (IQuote (JStr ''alice'') (JStr ''0xctype'')
               (ICostBreakdown (JNum 233) (JNum 210) (JNum 23)) (JStr ''Euro'') (JStr ''terms'')
               (JStr ''2020-01-01''))
   \<and> andThen (compressAttesterSignedQuote
        (IQuoteAttesterSigned (JStr ''alice'') (JStr ''0xctype'')
           (ICostBreakdown (JNum 233) (JNum 210) (JNum 23)) (JStr ''Euro'') (JStr ''terms'')
           (JStr ''2020-01-01'') (JStr ''0xsig'')))
        decompressAttesterSignedQuote
      = Inr (IQuoteAttesterSigned (JStr ''alice'') (JStr ''0xctype'')
               (ICostBreakdown (JNum 233) (JNum 210) (JNum 23)) (JStr ''Euro'') (JStr ''terms'')
               (JStr ''2020-01-01'') (JStr ''0xsig''))
   \<and> andThen (decompressQuoteAgreement
        (JArr [JStr ''alice'', JStr ''0xctype'', JArr [JNum 233, JNum 210, JNum 23],
               JStr ''Euro'', JStr ''terms'', JStr ''2020-01-01'', JStr ''0xsig'',
               JUndefined, JUndefined]))
        compressQuoteAgreement
      = Inr (JArr [JStr ''alice'', JStr ''0xctype'', JArr [JNum 233, JNum 210, JNum 23],
               JStr ''Euro'', JStr ''terms'', JStr ''2020-01-01'', JStr ''0xsig'',
               JUndefined, JUndefined])"
proof -
  have valid: "errorCheck anyString
      (IAttestation (JStr ''0xclaim'') (JStr ''0xctype'') (JStr ''alice'') (JBool False) JNull)
      = Inr ()"
    by (simp add: errorCheck_def anyString_def validateHash_def validateAddress_def
        delegationIdGuard_False IAttestation_def)
  show ?thesis
    using valid
      codec_round_trip [of anyString "JStr ''0xclaim''" "JStr ''0xctype''" "JStr ''alice''"
        "JBool False" JNull "JNum 233" "JNum 210" "JNum 23" "JStr ''alice''" "JStr ''Euro''"
        "JStr ''terms''" "JStr ''2020-01-01''" "JStr ''0xsig''" JUndefined JUndefined]
    by simp
qed

text \<open>
  C5, as the code has it. Decompressing fails, always with the array-shape error, exactly
  when the input is not an array of the arity of the type (Attestation 5, Quote 6,
  AttesterSignedQuote 7, QuoteAgreement 9) or, for the three quote types, when the element
  at position 2 is not itself an array of length 3 (the nested cost tuple); in every other
  case it succeeds. An attestation tuple of five elements is rebuilt field by field,
  \<open>revoked = false\<close> included.
\<close>

theorem decompress_array_shape:
  "(case decompress a of
      Inl e \<Rightarrow> kind_of e = Some ArrayShapeMismatch \<and> \<not> isArrayOfLength a 5
    | Inr r \<Rightarrow> isArrayOfLength a 5 \<and>
        r = IAttestation (element a 0) (element a 1) (element a 2) (element a 3) (element a 4))
   \<and> (case decompressQuote q of
      Inl e \<Rightarrow> kind_of e = Some ArrayShapeMismatch \<and>
               \<not> (isArrayOfLength q 6 \<and> isArrayOfLength (element q 2) 3)
    | Inr r \<Rightarrow> isArrayOfLength q 6 \<and> isArrayOfLength (element q 2) 3)
   \<and> (case decompressAttesterSignedQuote s of
      Inl e \<Rightarrow> kind_of e = Some ArrayShapeMismatch \<and>
               \<not> (isArrayOfLength s 7 \<and> isArrayOfLength (element s 2) 3)
    | Inr r \<Rightarrow> isArrayOfLength s 7 \<and> isArrayOfLength (element s 2) 3)
   \<and> (case decompressQuoteAgreement g of
      Inl e \<Rightarrow> kind_of e = Some ArrayShapeMismatch \<and>
               \<not> (isArrayOfLength g 9 \<and> isArrayOfLength (element g 2) 3)
    | Inr r \<Rightarrow> isArrayOfLength g 9 \<and> isArrayOfLength (element g 2) 3)
   \<and> decompress (JArr [claimHash, ct, ow, JBool False, delegationId])
       = Inr (IAttestation claimHash ct ow (JBool False) delegationId)"
proof -
  have "case decompress a of
      Inl e \<Rightarrow> kind_of e = Some ArrayShapeMismatch \<and> \<not> isArrayOfLength a 5
    | Inr r \<Rightarrow> isArrayOfLength a 5 \<and>
        r = IAttestation (element a 0) (element a 1) (element a 2) (element a 3) (element a 4)"
    using decompress_cases [of a] by (simp split: sum.splits)
  moreover have "decompress (JArr [claimHash, ct, ow, JBool False, delegationId])
       = Inr (IAttestation claimHash ct ow (JBool False) delegationId)"
    by (simp add: IAttestation_def)
  ultimately show ?thesis
    using decompressQuote_cases [of q] decompressAttesterSignedQuote_cases [of s]
      decompressQuoteAgreement_cases [of g]
    by simp
qed

text \<open>
  The claim C5 as stated fails for a quote: this input is an array of length 6, yet
  \<open>decompressQuote\<close> rejects it with the array-shape error, because its cost tuple has two
  elements.
\<close>

theorem decompress_nested_cost_counterexample:
  "isArrayOfLength (JArr [JStr ''attester'', JStr ''0xctype'', JArr [JNum 233, JNum 23],
       JStr ''Euro'', JStr ''terms'', JStr ''2020-01-01'']) 6
   \<and> decompressQuote (JArr [JStr ''attester'', JStr ''0xctype'', JArr [JNum 233, JNum 23],
       JStr ''Euro'', JStr ''terms'', JStr ''2020-01-01''])
       = Inl (ERROR_DECOMPRESSION_ARRAY (Some ''Cost Breakdown''))
   \<and> kind_of (ERROR_DECOMPRESSION_ARRAY (Some ''Cost Breakdown'')) = Some ArrayShapeMismatch"
  by simp

text \<open>
  C6. Compressing a record fails with a malformed-record error whenever a required field is
  absent or falsy: \<open>cTypeHash\<close>, \<open>claimHash\<close>, \<open>owner\<close> for an attestation; the six fields of
  a quote; \<open>gross\<close>, \<open>net\<close>, \<open>tax\<close> for a cost breakdown. An attestation whose \<open>revoked\<close>
  is \<open>false\<close> and whose other fields are valid is accepted, with \<open>false\<close> at position 3.
\<close>

theorem compress_required_fields:
  "(\<not> nullish r \<and>
      (falsy (get r ''cTypeHash'') \<or> falsy (get r ''claimHash'') \<or> falsy (get r ''owner''))
      \<longrightarrow> (\<exists>e. compress V r = Inl e \<and> kind_of e = Some MalformedRecord))
   \<and> (\<not> nullish q \<and>
      (falsy (get q ''attesterAddress'') \<or> falsy (get q ''cTypeHash'') \<or>
       falsy (get q ''cost'') \<or> falsy (get q ''currency'') \<or>
       falsy (get q ''termsAndConditions'') \<or> falsy (get q ''timeframe''))
      \<longrightarrow> compressQuote q = Inl (ERROR_COMPRESS_OBJECT q ''Quote'') \<and>
          kind_of (ERROR_COMPRESS_OBJECT q ''Quote'') = Some MalformedRecord)
   \<and> (\<not> nullish c \<and>
      (falsy (get c ''gross'') \<or> falsy (get c ''net'') \<or> falsy (get c ''tax''))
      \<longrightarrow> compressCost c = Inl (ERROR_COMPRESS_OBJECT c ''Cost Breakdown'') \<and>
          kind_of (ERROR_COMPRESS_OBJECT c ''Cost Breakdown'') = Some MalformedRecord)
   \<and> (\<not> nullish a \<and>
      \<not> falsy (get a ''cTypeHash'') \<and> validHash V (get a ''cTypeHash'') \<and>
      \<not> falsy (get a ''claimHash'') \<and> validHash V (get a ''claimHash'') \<and>
      \<not> falsy (get a ''owner'') \<and> validAddress V (get a ''owner'') \<and>
      get a ''revoked'' = JBool False
      \<longrightarrow> compress V a = Inr (JArr [get a ''claimHash'', get a ''cTypeHash'', get a ''owner'',
                                  JBool False, get a ''delegationId'']))"
  using compress_required [of r V] compressQuote_required [of q] compressCost_required [of c]
    compress_revoked_false [of a V]
  by simp

theorem compress_required_fields_witness:
  "(\<exists>e. compress anyString (object [(''claimHash'', JStr ''0xclaim''), (''owner'', JStr ''alice''),
                                   (''revoked'', JBool False)]) = Inl e
        \<and> kind_of e = Some MalformedRecord)
   \<and> compressCost (ICostBreakdown (JNum 233) (JNum 233) (JNum 0))
       = Inl (ERROR_COMPRESS_OBJECT (ICostBreakdown (JNum 233) (JNum 233) (JNum 0))
                ''Cost Breakdown'')
   \<and> compressQuote (object [(''attesterAddress'', JStr ''alice'')])
       = Inl (ERROR_COMPRESS_OBJECT (object [(''attesterAddress'', JStr ''alice'')]) ''Quote'')
   \<and> compress anyString
        (IAttestation (JStr ''0xclaim'') (JStr ''0xctype'') (JStr ''alice'') (JBool False) JNull)
       = Inr (JArr [JStr ''0xclaim'', JStr ''0xctype'', JStr ''alice'', JBool False, JNull])"
  using compress_required_fields
    [of "object [(''claimHash'', JStr ''0xclaim''), (''owner'', JStr ''alice''),
                 (''revoked'', JBool False)]"
        anyString
        "object [(''attesterAddress'', JStr ''alice'')]"
        "ICostBreakdown (JNum 233) (JNum 233) (JNum 0)"
        "IAttestation (JStr ''0xclaim'') (JStr ''0xctype'') (JStr ''alice'') (JBool False)
           JNull"]
  by (simp add: anyString_def IAttestation_def ICostBreakdown_def)

text \<open>
  C8. For every input of the attestation \<open>errorCheck\<close>, and so of \<open>compress\<close>, the error
  \<open>ERROR_DELEGATION_ID_TYPE\<close> is never thrown, whatever the type or value of
  \<open>delegationId\<close>: the guard of that branch is false for every value, because it compares
  the boolean \<^verbatim>\<open>!input.delegationId\<close> with \<^verbatim>\<open>null\<close>.
\<close>

theorem delegation_id_error_unreachable:
  "delegationIdGuard d = False
   \<and> errorCheck V input \<noteq> Inl ERROR_DELEGATION_ID_TYPE
   \<and> compress V input \<noteq> Inl ERROR_DELEGATION_ID_TYPE"
  by (auto simp: errorCheck_def compress_def delegationIdGuard_False validateHash_def
      validateAddress_def andThen_def split: if_splits sum.splits)

section \<open>The claims about the message envelope\<close>

text \<open>
  C1. For every encrypted envelope and receiver, \<open>decrypt\<close> makes its checks in the fixed
  order hash, signature, asymmetric decryption, parsing, owner binding: the calls it makes
  are always an initial segment of that sequence. The box is opened only after the hash
  comparison and the signature verification have both succeeded, and a failure at any step
  ends the decryption with an error, so that no message is returned; only when all five
  checks pass is the message, with the parsed body, returned.
\<close>

theorem decrypt_check_order:
  "prefix (fst (decrypt C r e)) verificationOrder
   \<and> (Call_decryptAsymmetricAsStr \<in> set (fst (decrypt C r e)) \<longrightarrow>
        hashMatches C e \<and> signatureVerifies C e)
   \<and> (\<not> hashMatches C e \<longrightarrow>
        decrypt C r e =
          ([Call_hashStr], Inl (ERROR_NONCE_HASH_INVALID (hash e) (nonce e) ''Message'')))
   \<and> (hashMatches C e \<and> \<not> signatureVerifies C e \<longrightarrow>
        decrypt C r e = ([Call_hashStr, Call_validateSignature], Inl ERROR_SIGNATURE_UNVERIFIABLE))
   \<and> (hashMatches C e \<and> signatureVerifies C e \<and>
        (decoded r e = None \<or> decoded r e = Some []) \<longrightarrow>
        decrypt C r e =
          ([Call_hashStr, Call_validateSignature, Call_decryptAsymmetricAsStr],
           Inl ERROR_DECODING_MESSAGE))
   \<and> (hashMatches C e \<and> signatureVerifies C e \<and> decoded r e = Some d \<and> d \<noteq> [] \<and>
        JSON_parse C d = None \<longrightarrow>
        decrypt C r e =
          ([Call_hashStr, Call_validateSignature, Call_decryptAsymmetricAsStr, Call_JSON_parse],
           Inl ERROR_PARSING_MESSAGE))
   \<and> (hashMatches C e \<and> signatureVerifies C e \<and> decoded r e = Some d \<and> d \<noteq> [] \<and>
        JSON_parse C d = Some b \<and> ensureOwnerIsSender b (senderAddress e) = Inl err \<longrightarrow>
        decrypt C r e = (verificationOrder, Inl ERROR_PARSING_MESSAGE))
   \<and> (hashMatches C e \<and> signatureVerifies C e \<and> decoded r e = Some d \<and> d \<noteq> [] \<and>
        JSON_parse C d = Some b \<and> ensureOwnerIsSender b (senderAddress e) = Inr () \<longrightarrow>
        fst (decrypt C r e) = verificationOrder \<and>
        (\<exists>m. snd (decrypt C r e) = Inr m \<and> body m = b))"
proof (intro conjI impI; (elim conjE)?)
  show "prefix (fst (decrypt C r e)) verificationOrder"
    by (rule decrypt_log_prefix)
  show "hashMatches C e" "signatureVerifies C e"
    if "Call_decryptAsymmetricAsStr \<in> set (fst (decrypt C r e))"
    using decrypt_decrypts_after_checks [OF that] by simp_all
  show "decrypt C r e =
      ([Call_hashStr], Inl (ERROR_NONCE_HASH_INVALID (hash e) (nonce e) ''Message''))"
    if "\<not> hashMatches C e"
    using that by (rule decrypt_hash_mismatch)
  show "decrypt C r e = ([Call_hashStr, Call_validateSignature], Inl ERROR_SIGNATURE_UNVERIFIABLE)"
    if "hashMatches C e" "\<not> signatureVerifies C e"
    using that by (rule decrypt_bad_signature)
  show "decrypt C r e =
      ([Call_hashStr, Call_validateSignature, Call_decryptAsymmetricAsStr],
       Inl ERROR_DECODING_MESSAGE)"
    if "hashMatches C e" "signatureVerifies C e" "decoded r e = None \<or> decoded r e = Some []"
    using that by (rule decrypt_undecodable)
  show "decrypt C r e =
      ([Call_hashStr, Call_validateSignature, Call_decryptAsymmetricAsStr, Call_JSON_parse],
       Inl ERROR_PARSING_MESSAGE)"
    if "hashMatches C e" "signatureVerifies C e" "decoded r e = Some d" "d \<noteq> []"
      "JSON_parse C d = None"
    using that by (rule decrypt_unparsable)
  show "decrypt C r e = (verificationOrder, Inl ERROR_PARSING_MESSAGE)"
    if "hashMatches C e" "signatureVerifies C e" "decoded r e = Some d" "d \<noteq> []"
      "JSON_parse C d = Some b" "ensureOwnerIsSender b (senderAddress e) = Inl err"
    using that by (rule decrypt_owner_rejected)
  show "fst (decrypt C r e) = verificationOrder"
    "\<exists>m. snd (decrypt C r e) = Inr m \<and> body m = b"
    if "hashMatches C e" "signatureVerifies C e" "decoded r e = Some d" "d \<noteq> []"
      "JSON_parse C d = Some b" "ensureOwnerIsSender b (senderAddress e) = Inr ()"
    using decrypt_accepted [OF that] by simp_all
qed

theorem decrypt_check_order_witness:
  "decrypt fakeCrypto (fakeIdentity ''bob'')
      ((fakeEnvelope ''alice'' ''attestation by alice'')\<lparr> createdAt := 1600000000001 \<rparr>)
     = ([Call_hashStr],
        Inl (ERROR_NONCE_HASH_INVALID ''hash(sealed:attestation by alicenonce1600000000000)''
               ''nonce'' ''Message''))
   \<and> decrypt fakeCrypto (fakeIdentity ''bob'')
      ((fakeEnvelope ''alice'' ''attestation by alice'')\<lparr> senderAddress := ''mallory'' \<rparr>)
     = ([Call_hashStr, Call_validateSignature], Inl ERROR_SIGNATURE_UNVERIFIABLE)
   \<and> decrypt fakeCrypto (fakeIdentity ''bob'') (fakeEnvelope ''alice'' [])
     = ([Call_hashStr, Call_validateSignature, Call_decryptAsymmetricAsStr],
        Inl ERROR_DECODING_MESSAGE)
   \<and> decrypt fakeCrypto (fakeIdentity ''bob'') (fakeEnvelope ''alice'' ''{ not json'')
     = ([Call_hashStr, Call_validateSignature, Call_decryptAsymmetricAsStr, Call_JSON_parse],
        Inl ERROR_PARSING_MESSAGE)
   \<and> decrypt fakeCrypto (fakeIdentity ''bob'') (fakeEnvelope ''alice'' ''attestation by bob'')
     = (verificationOrder, Inl ERROR_PARSING_MESSAGE)
   \<and> fst (decrypt fakeCrypto (fakeIdentity ''bob'')
             (fakeEnvelope ''alice'' ''attestation by alice'')) = verificationOrder
   \<and> (\<exists>m. snd (decrypt fakeCrypto (fakeIdentity ''bob'')
                  (fakeEnvelope ''alice'' ''attestation by alice'')) = Inr m
          \<and> body m = submitAttestationBody ''alice'')"
proof -
  note hash_case = decrypt_check_order
    [THEN conjunct2, THEN conjunct2, THEN conjunct1, THEN mp]
  note signature_case = decrypt_check_order
    [THEN conjunct2, THEN conjunct2, THEN conjunct2, THEN conjunct1, THEN mp, OF conjI]
  note decoding_case = decrypt_check_order
    [THEN conjunct2, THEN conjunct2, THEN conjunct2, THEN conjunct2, THEN conjunct1, THEN mp,
     OF conjI [OF _ conjI]]
  note parsing_case = decrypt_check_order
    [THEN conjunct2, THEN conjunct2, THEN conjunct2, THEN conjunct2, THEN conjunct2,
     THEN conjunct1, THEN mp, OF conjI [OF _ conjI [OF _ conjI [OF _ conjI]]]]
  note owner_case = decrypt_check_order
    [THEN conjunct2, THEN conjunct2, THEN conjunct2, THEN conjunct2, THEN conjunct2,
     THEN conjunct2, THEN conjunct1, THEN mp,
     OF conjI [OF _ conjI [OF _ conjI [OF _ conjI [OF _ conjI]]]]]
  note accepted_case = decrypt_check_order
    [THEN conjunct2, THEN conjunct2, THEN conjunct2, THEN conjunct2, THEN conjunct2,
     THEN conjunct2, THEN conjunct2, THEN mp,
     OF conjI [OF _ conjI [OF _ conjI [OF _ conjI [OF _ conjI]]]]]
  have tampered: "decrypt fakeCrypto (fakeIdentity ''bob'')
      ((fakeEnvelope ''alice'' ''attestation by alice'')\<lparr> createdAt := 1600000000001 \<rparr>)
     = ([Call_hashStr],
        Inl (ERROR_NONCE_HASH_INVALID ''hash(sealed:attestation by alicenonce1600000000000)''
               ''nonce'' ''Message''))"
    using hash_case [OF fake_tampered, of "fakeIdentity ''bob''" "''alice''"
        "''attestation by alice''"]
    by (simp add: fakeEnvelope_def)
  have forged: "decrypt fakeCrypto (fakeIdentity ''bob'')
      ((fakeEnvelope ''alice'' ''attestation by alice'')\<lparr> senderAddress := ''mallory'' \<rparr>)
     = ([Call_hashStr, Call_validateSignature], Inl ERROR_SIGNATURE_UNVERIFIABLE)"
    by (rule signature_case [OF fake_forged])
  have undecodable: "decrypt fakeCrypto (fakeIdentity ''bob'') (fakeEnvelope ''alice'' [])
     = ([Call_hashStr, Call_validateSignature, Call_decryptAsymmetricAsStr],
        Inl ERROR_DECODING_MESSAGE)"
    by (rule decoding_case [OF fake_hashMatches fake_signatureVerifies disjI2 [OF fake_decoded]])
  have unparsable: "decrypt fakeCrypto (fakeIdentity ''bob'')
      (fakeEnvelope ''alice'' ''{ not json'')
     = ([Call_hashStr, Call_validateSignature, Call_decryptAsymmetricAsStr, Call_JSON_parse],
        Inl ERROR_PARSING_MESSAGE)"
    by (rule parsing_case [OF fake_hashMatches fake_signatureVerifies fake_decoded _
          fake_parse_garbage]) simp
  have rejected: "decrypt fakeCrypto (fakeIdentity ''bob'')
      (fakeEnvelope ''alice'' ''attestation by bob'')
     = (verificationOrder, Inl ERROR_PARSING_MESSAGE)"
    by (rule owner_case [OF fake_hashMatches fake_signatureVerifies fake_decoded _
          fake_parse_bob sample_owner_rejected]) simp
  have accepted: "fst (decrypt fakeCrypto (fakeIdentity ''bob'')
             (fakeEnvelope ''alice'' ''attestation by alice'')) = verificationOrder \<and>
        (\<exists>m. snd (decrypt fakeCrypto (fakeIdentity ''bob'')
                  (fakeEnvelope ''alice'' ''attestation by alice'')) = Inr m
          \<and> body m = submitAttestationBody ''alice'')"
    by (rule accepted_case [OF fake_hashMatches fake_signatureVerifies fake_decoded _
          fake_parse_alice sample_owner_accepted]) simp
  show ?thesis
    using tampered forged undecodable unparsable rejected accepted
    by (intro conjI) (assumption | erule conjunct1 | erule conjunct2)+
qed

text \<open>
  How \<open>decrypt\<close> treats the submission of an attestation, for every envelope that passes the
  hash and signature checks, decrypts and parses to a body of kind
  \<^verbatim>\<open>submit-attestation-for-claim\<close>. If the owner of the attestation differs from the sender
  address, \<open>ensureOwnerIsSender\<close> raises the identity mismatch, but the \<^verbatim>\<open>catch\<close> of
  \<open>decrypt\<close> replaces it and \<open>decrypt\<close> fails with \<open>ERROR_PARSING_MESSAGE\<close>; if the owner is
  the sender address, \<open>decrypt\<close> succeeds and returns the envelope with the body.
\<close>

lemma decrypt_owner_binding:
  assumes "hashMatches C e" and "signatureVerifies C e"
    and "decoded r e = Some d" and "d \<noteq> []" and "JSON_parse C d = Some b"
    and "readProp b ''type'' = Inr (JStr (tag SUBMIT_ATTESTATION_FOR_CLAIM))"
    and "readPath b [''content'', ''attestation'', ''owner''] = Inr ow"
  shows "(ow \<noteq> JStr (senderAddress e) \<longrightarrow>
            ensureOwnerIsSender b (senderAddress e)
              = Inl (ERROR_IDENTITY_MISMATCH ''Attestation'' ''Sender'') \<and>
            snd (decrypt C r e) = Inl ERROR_PARSING_MESSAGE)
       \<and> (ow = JStr (senderAddress e) \<longrightarrow>
            snd (decrypt C r e) =
              Inr \<lparr> messageId = messageId e, receivedAt = receivedAt e, message = message e,
                    nonce = nonce e, createdAt = createdAt e, hash = hash e,
                    signature = signature e, receiverAddress = receiverAddress e,
                    senderAddress = senderAddress e,
                    senderBoxPublicKey = senderBoxPublicKey e, body = b \<rparr>)"
proof (intro conjI impI)
  assume differs: "ow \<noteq> JStr (senderAddress e)"
  then show rejected: "ensureOwnerIsSender b (senderAddress e)
      = Inl (ERROR_IDENTITY_MISMATCH ''Attestation'' ''Sender'')"
    by (simp add: ensureOwnerIsSender_submit [OF assms(6,7)])
  show "snd (decrypt C r e) = Inl ERROR_PARSING_MESSAGE"
    by (simp add: decrypt_owner_rejected [OF assms(1-5) rejected])
next
  assume "ow = JStr (senderAddress e)"
  then have "ensureOwnerIsSender b (senderAddress e) = Inr ()"
    by (simp add: ensureOwnerIsSender_submit [OF assms(6,7)])
  then show "snd (decrypt C r e) =
      Inr \<lparr> messageId = messageId e, receivedAt = receivedAt e, message = message e,
            nonce = nonce e, createdAt = createdAt e, hash = hash e,
            signature = signature e, receiverAddress = receiverAddress e,
            senderAddress = senderAddress e,
            senderBoxPublicKey = senderBoxPublicKey e, body = b \<rparr>"
    by (simp add: decrypt_accepted [OF assms(1-5)])
qed

lemma decrypt_owner_binding_example:
  "snd (decrypt fakeCrypto (fakeIdentity ''bob'') (fakeEnvelope ''bob'' ''attestation by bob''))
     = Inr \<lparr> messageId = None, receivedAt = None,
             message = ''sealed:attestation by bob'', nonce = ''nonce'',
             createdAt = 1600000000000,
             hash = ''hash(sealed:attestation by bobnonce1600000000000)'',
             signature = ''signed(bob,hash(sealed:attestation by bobnonce1600000000000))'',
             receiverAddress = ''bob'', senderAddress = ''bob'',
             senderBoxPublicKey = ''box-bob'', body = submitAttestationBody ''bob'' \<rparr>
   \<and> snd (decrypt fakeCrypto (fakeIdentity ''bob'')
            (fakeEnvelope ''alice'' ''attestation by bob'')) = Inl ERROR_PARSING_MESSAGE"
proof -
  have "snd (decrypt fakeCrypto (fakeIdentity ''bob'')
      (fakeEnvelope ''bob'' ''attestation by bob'')) =
      Inr \<lparr> messageId = messageId (fakeEnvelope ''bob'' ''attestation by bob''),
            receivedAt = receivedAt (fakeEnvelope ''bob'' ''attestation by bob''),
            message = message (fakeEnvelope ''bob'' ''attestation by bob''),
            nonce = nonce (fakeEnvelope ''bob'' ''attestation by bob''),
            createdAt = createdAt (fakeEnvelope ''bob'' ''attestation by bob''),
            hash = hash (fakeEnvelope ''bob'' ''attestation by bob''),
            signature = signature (fakeEnvelope ''bob'' ''attestation by bob''),
            receiverAddress = receiverAddress (fakeEnvelope ''bob'' ''attestation by bob''),
            senderAddress = senderAddress (fakeEnvelope ''bob'' ''attestation by bob''),
            senderBoxPublicKey = senderBoxPublicKey (fakeEnvelope ''bob'' ''attestation by bob''),
            body = submitAttestationBody ''bob'' \<rparr>"
    using decrypt_owner_binding [of fakeCrypto "fakeEnvelope ''bob'' ''attestation by bob''"
        "fakeIdentity ''bob''" "''attestation by bob''" "submitAttestationBody ''bob''"
        "JStr ''bob''"]
      fake_hashMatches fake_signatureVerifies fake_decoded fake_parse_bob
      submit_owner [of "''bob''"] fake_sender
    by simp
  moreover have "snd (decrypt fakeCrypto (fakeIdentity ''bob'')
      (fakeEnvelope ''alice'' ''attestation by bob'')) = Inl ERROR_PARSING_MESSAGE"
    using decrypt_owner_binding [of fakeCrypto "fakeEnvelope ''alice'' ''attestation by bob''"
        "fakeIdentity ''bob''" "''attestation by bob''" "submitAttestationBody ''bob''"
        "JStr ''bob''"]
      fake_hashMatches fake_signatureVerifies fake_decoded fake_parse_bob
      submit_owner [of "''bob''"] fake_sender
    by simp
  ultimately show ?thesis
    by (simp add: fakeEnvelope_def)
qed

text \<open>
  C2, evaluated. The envelope below is signed by alice, passes the hash and signature
  checks, decrypts and parses to the submission of an attestation owned by bob. The claim
  has \<open>decrypt\<close> fail with the identity mismatch; \<open>decrypt\<close> fails with the parsing error
  instead, whose kind is not the identity mismatch: the error that \<open>ensureOwnerIsSender\<close>
  raises is lost in the \<^verbatim>\<open>catch\<close> that is there for \<^verbatim>\<open>JSON.parse\<close>.
\<close>

theorem decrypt_masks_identity_mismatch:
  "snd (ensureHashAndSignature fakeCrypto (fakeEnvelope ''alice'' ''attestation by bob'')
          (senderAddress (fakeEnvelope ''alice'' ''attestation by bob''))) = Inr ()
   \<and> decryptAsymmetricAsStr (fakeIdentity ''bob'')
        (message (fakeEnvelope ''alice'' ''attestation by bob''),
         nonce (fakeEnvelope ''alice'' ''attestation by bob''))
        (senderBoxPublicKey (fakeEnvelope ''alice'' ''attestation by bob''))
       = Some ''attestation by bob''
   \<and> JSON_parse fakeCrypto ''attestation by bob'' = Some (submitAttestationBody ''bob'')
   \<and> readProp (submitAttestationBody ''bob'') ''type''
       = Inr (JStr (tag SUBMIT_ATTESTATION_FOR_CLAIM))
   \<and> readPath (submitAttestationBody ''bob'') [''content'', ''attestation'', ''owner'']
       = Inr (JStr ''bob'')
   \<and> senderAddress (fakeEnvelope ''alice'' ''attestation by bob'') = ''alice''
   \<and> ensureOwnerIsSender (submitAttestationBody ''bob'') ''alice''
       = Inl (ERROR_IDENTITY_MISMATCH ''Attestation'' ''Sender'')
   \<and> snd (decrypt fakeCrypto (fakeIdentity ''bob'')
            (fakeEnvelope ''alice'' ''attestation by bob'')) = Inl ERROR_PARSING_MESSAGE
   \<and> kind_of ERROR_PARSING_MESSAGE = Some PayloadParseError
   \<and> PayloadParseError \<noteq> IdentityMismatch"
proof -
  have checks: "snd (ensureHashAndSignature fakeCrypto
      (fakeEnvelope ''alice'' ''attestation by bob'')
      (senderAddress (fakeEnvelope ''alice'' ''attestation by bob''))) = Inr ()"
    using fake_hashMatches [of "''alice''" "''attestation by bob''"]
      fake_signatureVerifies [of "''alice''" "''attestation by bob''"]
    by (simp add: ensureHashAndSignature_cases signatureVerifies_def)
  have rejected: "ensureOwnerIsSender (submitAttestationBody ''bob'')
      (senderAddress (fakeEnvelope ''alice'' ''attestation by bob''))
      = Inl (ERROR_IDENTITY_MISMATCH ''Attestation'' ''Sender'')"
    by (simp add: ensureOwnerIsSender_submit [OF submit_owner] fake_sender)
  have "snd (decrypt fakeCrypto (fakeIdentity ''bob'')
      (fakeEnvelope ''alice'' ''attestation by bob'')) = Inl ERROR_PARSING_MESSAGE"
    by (simp add: decrypt_owner_rejected [OF fake_hashMatches fake_signatureVerifies
          fake_decoded _ fake_parse_bob rejected])
  with checks rejected show ?thesis
    using fake_decoded [of "''bob''" "''alice''" "''attestation by bob''"]
      fake_parse_bob submit_owner [of "''bob''"] fake_sender
    by (simp add: decoded_def)
qed

text \<open>
  C3, evaluated. A message constructed from the compressed form of a body stores the
  decompressed body, but what it encrypts is the serialisation of the constructor's
  argument, the compressed array: the receiver who decrypts the emitted envelope gets the
  compressed array as body, not the structured body that constructing from the structured
  payload gives.
\<close>

theorem compressed_body_sent_compressed:
  "(case Message_constructor fakeCrypto decompressInformCreateDelegation 1600000000000
           compressedInformCreateDelegationBody (fakeIdentity ''alice'')
           (fakePublicIdentity ''bob'') of
      Inl e \<Rightarrow> False
    | Inr m \<Rightarrow>
        body m = informCreateDelegationBody \<and>
        message m = ''sealed:compressed inform-create-delegation'' \<and>
        map_sum id body (snd (decrypt fakeCrypto (fakeIdentity ''bob'') (encrypt m)))
          = Inr compressedInformCreateDelegationBody)
   \<and> (case Message_constructor fakeCrypto decompressInformCreateDelegation 1600000000000
           informCreateDelegationBody (fakeIdentity ''alice'') (fakePublicIdentity ''bob'') of
      Inl e \<Rightarrow> False
    | Inr m \<Rightarrow>
        body m = informCreateDelegationBody \<and>
        message m = ''sealed:inform-create-delegation'' \<and>
        map_sum id body (snd (decrypt fakeCrypto (fakeIdentity ''bob'') (encrypt m)))
          = Inr informCreateDelegationBody)
   \<and> compressedInformCreateDelegationBody \<noteq> informCreateDelegationBody"
  by (simp add: Message_constructor_def decrypt_def encrypt_def ensureHashAndSignature_def
      validateSignature_def ensureOwnerIsSender_def readProp_def
      fakeCrypto_def fakeIdentity_def fakePublicIdentity_def fakeParse_def fakeStringify_def
      compressedInformCreateDelegationBody_def informCreateDelegationBody_def object_def)

text \<open>
  C9. The fields \<open>messageId\<close>, \<open>receivedAt\<close> and \<open>receiverAddress\<close> of an envelope are not
  protected: two envelopes that agree on every other field are treated alike by \<open>decrypt\<close>,
  which makes the same calls and either returns the same body for both or fails with the
  same error for both, and by the hash and signature check.
\<close>

theorem unprotected_fields:
  assumes "message e' = message e" and "nonce e' = nonce e" and "createdAt e' = createdAt e"
    and "hash e' = hash e" and "signature e' = signature e"
    and "senderAddress e' = senderAddress e"
    and "senderBoxPublicKey e' = senderBoxPublicKey e"
  shows "map_sum id body (snd (decrypt C r e')) = map_sum id body (snd (decrypt C r e))
       \<and> fst (decrypt C r e') = fst (decrypt C r e)
       \<and> ensureHashAndSignature C e' s = ensureHashAndSignature C e s"
  using assms
  by (simp add: decrypt_def ensureHashAndSignature_def split: option.splits sum.splits prod.splits)

theorem unprotected_fields_witness:
  "map_sum id body (snd (decrypt fakeCrypto (fakeIdentity ''bob'')
      ((fakeEnvelope ''alice'' ''attestation by alice'')
         \<lparr> messageId := Some ''id-1'', receivedAt := Some 1600000000001,
           receiverAddress := ''carol'' \<rparr>)))
   = Inr (submitAttestationBody ''alice'')"
proof -
  have "map_sum id body (snd (decrypt fakeCrypto (fakeIdentity ''bob'')
      (fakeEnvelope ''alice'' ''attestation by alice''))) = Inr (submitAttestationBody ''alice'')"
    by (simp add: sample_decrypt)
  then show ?thesis
    using unprotected_fields [of
        "(fakeEnvelope ''alice'' ''attestation by alice'')
           \<lparr> messageId := Some ''id-1'', receivedAt := Some 1600000000001,
             receiverAddress := ''carol'' \<rparr>"
        "fakeEnvelope ''alice'' ''attestation by alice''" fakeCrypto "fakeIdentity ''bob''"]
    by simp
qed

text \<open>
  C10. For a body whose \<open>type\<close> is none of \<^verbatim>\<open>request-attestation-for-claim\<close>,
  \<^verbatim>\<open>submit-attestation-for-claim\<close> and \<^verbatim>\<open>submit-claims-for-ctypes-classic\<close>,
  \<open>ensureOwnerIsSender\<close> never throws, whatever the content and the sender address. For
  each of these three kinds the owner is bound to the sender: a request or a submission of
  an attestation is accepted when its owner is the sender address and rejected with the
  identity mismatch when it differs; a classic submission of claims is accepted exactly
  when the owner of every claim of the list is the sender address, and is rejected with
  the identity mismatch when some claim of the list, at whatever position, has another
  owner.
\<close>

theorem owner_binding_kinds:
  "(readProp b ''type'' = Inr t \<and>
      t \<noteq> JStr (tag REQUEST_ATTESTATION_FOR_CLAIM) \<and>
      t \<noteq> JStr (tag SUBMIT_ATTESTATION_FOR_CLAIM) \<and>
      t \<noteq> JStr (tag SUBMIT_CLAIMS_FOR_CTYPES_CLASSIC)
      \<longrightarrow> ensureOwnerIsSender b s = Inr ())
   \<and> (readProp b ''type'' = Inr (JStr (tag REQUEST_ATTESTATION_FOR_CLAIM)) \<and>
      readPath b [''content'', ''requestForAttestation'', ''claim'', ''owner''] = Inr ow \<and>
      ow \<noteq> JStr s
      \<longrightarrow> ensureOwnerIsSender b s = Inl (ERROR_IDENTITY_MISMATCH ''Claim'' ''Sender''))
   \<and> (readProp b ''type'' = Inr (JStr (tag SUBMIT_ATTESTATION_FOR_CLAIM)) \<and>
      readPath b [''content'', ''attestation'', ''owner''] = Inr ow \<and>
      ow \<noteq> JStr s
      \<longrightarrow> ensureOwnerIsSender b s = Inl (ERROR_IDENTITY_MISMATCH ''Attestation'' ''Sender''))
   \<and> (readProp b ''type'' = Inr (JStr (tag SUBMIT_CLAIMS_FOR_CTYPES_CLASSIC)) \<and>
      readProp b ''content'' = Inr (JArr (c # rest)) \<and>
      readPath c [''request'', ''claim'', ''owner''] = Inr ow \<and>
      ow \<noteq> JStr s
      \<longrightarrow> ensureOwnerIsSender b s = Inl (ERROR_IDENTITY_MISMATCH ''Claims'' ''Sender''))
   \<and> (readProp b ''type'' = Inr (JStr (tag SUBMIT_CLAIMS_FOR_CTYPES_CLASSIC)) \<and>
      readProp b ''content'' = Inr (JArr cs)
      \<longrightarrow> (ensureOwnerIsSender b s = Inr ()) =
          (\<forall>c\<in>set cs. readPath c [''request'', ''claim'', ''owner''] = Inr (JStr s)))
   \<and> (readProp b ''type'' = Inr (JStr (tag SUBMIT_CLAIMS_FOR_CTYPES_CLASSIC)) \<and>
      readProp b ''content'' = Inr (JArr cs) \<and>
      (\<forall>c\<in>set cs. \<exists>ow. readPath c [''request'', ''claim'', ''owner''] = Inr ow) \<and>
      (\<exists>c\<in>set cs. readPath c [''request'', ''claim'', ''owner''] \<noteq> Inr (JStr s))
      \<longrightarrow> ensureOwnerIsSender b s = Inl (ERROR_IDENTITY_MISMATCH ''Claims'' ''Sender''))
   \<and> (readProp b ''type'' = Inr (JStr (tag REQUEST_ATTESTATION_FOR_CLAIM)) \<and>
      readPath b [''content'', ''requestForAttestation'', ''claim'', ''owner'']
        = Inr (JStr s)
      \<longrightarrow> ensureOwnerIsSender b s = Inr ())
   \<and> (readProp b ''type'' = Inr (JStr (tag SUBMIT_ATTESTATION_FOR_CLAIM)) \<and>
      readPath b [''content'', ''attestation'', ''owner''] = Inr (JStr s)
      \<longrightarrow> ensureOwnerIsSender b s = Inr ())"
proof (intro conjI impI; elim conjE)
  show "ensureOwnerIsSender b s = Inr ()"
    if "readProp b ''type'' = Inr t" "t \<noteq> JStr (tag REQUEST_ATTESTATION_FOR_CLAIM)"
      "t \<noteq> JStr (tag SUBMIT_ATTESTATION_FOR_CLAIM)"
      "t \<noteq> JStr (tag SUBMIT_CLAIMS_FOR_CTYPES_CLASSIC)"
    using that by (simp add: ensureOwnerIsSender_def)
  show "ensureOwnerIsSender b s = Inl (ERROR_IDENTITY_MISMATCH ''Claim'' ''Sender'')"
    if "readProp b ''type'' = Inr (JStr (tag REQUEST_ATTESTATION_FOR_CLAIM))"
      "readPath b [''content'', ''requestForAttestation'', ''claim'', ''owner''] = Inr ow"
      "ow \<noteq> JStr s"
    using that(3) by (simp add: ensureOwnerIsSender_request [OF that(1,2)])
  show "ensureOwnerIsSender b s = Inl (ERROR_IDENTITY_MISMATCH ''Attestation'' ''Sender'')"
    if "readProp b ''type'' = Inr (JStr (tag SUBMIT_ATTESTATION_FOR_CLAIM))"
      "readPath b [''content'', ''attestation'', ''owner''] = Inr ow" "ow \<noteq> JStr s"
    using that(3) by (simp add: ensureOwnerIsSender_submit [OF that(1,2)])
  show "ensureOwnerIsSender b s = Inl (ERROR_IDENTITY_MISMATCH ''Claims'' ''Sender'')"
    if "readProp b ''type'' = Inr (JStr (tag SUBMIT_CLAIMS_FOR_CTYPES_CLASSIC))"
      "readProp b ''content'' = Inr (JArr (c # rest))"
      "readPath c [''request'', ''claim'', ''owner''] = Inr ow" "ow \<noteq> JStr s"
    using forEach_claim_first [OF that(3,4), of rest]
    by (simp only: ensureOwnerIsSender_classic [OF that(1,2)])
  show "(ensureOwnerIsSender b s = Inr ()) =
      (\<forall>c\<in>set cs. readPath c [''request'', ''claim'', ''owner''] = Inr (JStr s))"
    if "readProp b ''type'' = Inr (JStr (tag SUBMIT_CLAIMS_FOR_CTYPES_CLASSIC))"
      "readProp b ''content'' = Inr (JArr cs)"
    by (simp only: ensureOwnerIsSender_classic [OF that] forEach_claim_accepts)
  show "ensureOwnerIsSender b s = Inl (ERROR_IDENTITY_MISMATCH ''Claims'' ''Sender'')"
    if "readProp b ''type'' = Inr (JStr (tag SUBMIT_CLAIMS_FOR_CTYPES_CLASSIC))"
      "readProp b ''content'' = Inr (JArr cs)"
      "\<forall>c\<in>set cs. \<exists>ow. readPath c [''request'', ''claim'', ''owner''] = Inr ow"
      "\<exists>c\<in>set cs. readPath c [''request'', ''claim'', ''owner''] \<noteq> Inr (JStr s)"
    using forEach_claim_rejects [OF that(3,4)]
    by (simp only: ensureOwnerIsSender_classic [OF that(1,2)])
  show "ensureOwnerIsSender b s = Inr ()"
    if "readProp b ''type'' = Inr (JStr (tag REQUEST_ATTESTATION_FOR_CLAIM))"
      "readPath b [''content'', ''requestForAttestation'', ''claim'', ''owner'']
         = Inr (JStr s)"
    by (simp add: ensureOwnerIsSender_request [OF that])
  show "ensureOwnerIsSender b s = Inr ()"
    if "readProp b ''type'' = Inr (JStr (tag SUBMIT_ATTESTATION_FOR_CLAIM))"
      "readPath b [''content'', ''attestation'', ''owner''] = Inr (JStr s)"
    by (simp add: ensureOwnerIsSender_submit [OF that])
qed

theorem owner_binding_kinds_witness:
  "ensureOwnerIsSender informCreateDelegationBody ''mallory'' = Inr ()
   \<and> ensureOwnerIsSender (requestAttestationBody ''bob'') ''mallory''
       = Inl (ERROR_IDENTITY_MISMATCH ''Claim'' ''Sender'')
   \<and> ensureOwnerIsSender (submitAttestationBody ''bob'') ''mallory''
       = Inl (ERROR_IDENTITY_MISMATCH ''Attestation'' ''Sender'')
   \<and> ensureOwnerIsSender (submitClaimsBody [''mallory'', ''bob'']) ''bob''
       = Inl (ERROR_IDENTITY_MISMATCH ''Claims'' ''Sender'')
   \<and> ensureOwnerIsSender (submitClaimsBody [''bob'', ''bob'']) ''bob'' = Inr ()
   \<and> ensureOwnerIsSender (submitClaimsBody [''bob'', ''mallory'']) ''bob'' \<noteq> Inr ()
   \<and> ensureOwnerIsSender (submitClaimsBody [''bob'', ''mallory'']) ''bob''
       = Inl (ERROR_IDENTITY_MISMATCH ''Claims'' ''Sender'')
   \<and> ensureOwnerIsSender (requestAttestationBody ''bob'') ''bob'' = Inr ()
   \<and> ensureOwnerIsSender (submitAttestationBody ''bob'') ''bob'' = Inr ()"
proof -
  note other_case = owner_binding_kinds
    [THEN conjunct1, THEN mp, OF conjI [OF _ conjI [OF _ conjI]]]
  note request_case = owner_binding_kinds
    [THEN conjunct2, THEN conjunct1, THEN mp, OF conjI [OF _ conjI]]
  note submit_case = owner_binding_kinds
    [THEN conjunct2, THEN conjunct2, THEN conjunct1, THEN mp, OF conjI [OF _ conjI]]
  note first_case = owner_binding_kinds
    [THEN conjunct2, THEN conjunct2, THEN conjunct2, THEN conjunct1, THEN mp,
     OF conjI [OF _ conjI [OF _ conjI]]]
  note every_case = owner_binding_kinds
    [THEN conjunct2, THEN conjunct2, THEN conjunct2, THEN conjunct2, THEN conjunct1, THEN mp,
     OF conjI]
  note some_case = owner_binding_kinds
    [THEN conjunct2, THEN conjunct2, THEN conjunct2, THEN conjunct2, THEN conjunct2,
     THEN conjunct1, THEN mp, OF conjI [OF _ conjI [OF _ conjI]]]
  note request_accept = owner_binding_kinds
    [THEN conjunct2, THEN conjunct2, THEN conjunct2, THEN conjunct2, THEN conjunct2,
     THEN conjunct2, THEN conjunct1, THEN mp, OF conjI]
  note submit_accept = owner_binding_kinds
    [THEN conjunct2, THEN conjunct2, THEN conjunct2, THEN conjunct2, THEN conjunct2,
     THEN conjunct2, THEN conjunct2, THEN mp, OF conjI]
  have other: "ensureOwnerIsSender informCreateDelegationBody ''mallory'' = Inr ()"
    by (rule other_case [OF inform_kind]) simp_all
  have request: "ensureOwnerIsSender (requestAttestationBody ''bob'') ''mallory''
       = Inl (ERROR_IDENTITY_MISMATCH ''Claim'' ''Sender'')"
    by (rule request_case [OF request_owner]) simp
  have submit: "ensureOwnerIsSender (submitAttestationBody ''bob'') ''mallory''
       = Inl (ERROR_IDENTITY_MISMATCH ''Attestation'' ''Sender'')"
    by (rule submit_case [OF submit_owner]) simp
  have content: "readProp (submitClaimsBody [''mallory'', ''bob'']) ''content''
      = Inr (JArr (attestedClaim ''mallory'' # [attestedClaim ''bob'']))"
    by (simp add: classic_owner)
  have first: "ensureOwnerIsSender (submitClaimsBody [''mallory'', ''bob'']) ''bob''
       = Inl (ERROR_IDENTITY_MISMATCH ''Claims'' ''Sender'')"
    by (rule first_case [OF classic_owner(1) content attestedClaim_owner]) simp
  have every: "ensureOwnerIsSender (submitClaimsBody [''bob'', ''bob'']) ''bob'' = Inr ()"
    by (simp only: every_case [OF classic_owner])
      (simp add: attestedClaim_owner del: readPath.simps)
  have later: "ensureOwnerIsSender (submitClaimsBody [''bob'', ''mallory'']) ''bob'' \<noteq> Inr ()"
    by (simp only: every_case [OF classic_owner])
      (simp add: attestedClaim_owner del: readPath.simps)
  have some: "ensureOwnerIsSender (submitClaimsBody [''bob'', ''mallory'']) ''bob''
       = Inl (ERROR_IDENTITY_MISMATCH ''Claims'' ''Sender'')"
    by (rule some_case [OF classic_owner])
      (simp_all add: attestedClaim_owner del: readPath.simps)
  have request_ok: "ensureOwnerIsSender (requestAttestationBody ''bob'') ''bob'' = Inr ()"
    by (rule request_accept [OF request_owner])
  have submit_ok: "ensureOwnerIsSender (submitAttestationBody ''bob'') ''bob'' = Inr ()"
    by (rule submit_accept [OF submit_owner])
  from other request submit first every later some request_ok submit_ok show ?thesis
    by (intro conjI)
qed

section \<open>The claim about the construction of claims\<close>

text \<open>
  C7, as the code has it. \<open>fromClaim\<close> rejects an input whose contents do not verify
  against the given schema; \<open>fromCTypeAndClaimContents\<close> does so when the given cType carries
  a schema, and goes on to the constructor without verifying when it carries none;
  \<open>fromNestedCTypeClaim\<close> rejects contents that fail the nested validation. When the
  validation passes, each of the three hands the input to the public constructor. The public
  constructor performs \<^verbatim>\<open>ClaimUtils.errorCheck\<close> on its input and nothing else: an error of
  that check is the result of the constructor, an input that passes becomes the claim with
  its three fields, and the schema verifiers have no part in it.
\<close>

theorem claim_schema_validation:
  "(\<not> nullish claimInput \<and> \<not> verifyClaim H (get claimInput ''contents'') cTypeSchema
      \<longrightarrow> fromClaim H claimInput cTypeSchema = Inl ERROR_CLAIM_UNVERIFIABLE)
   \<and> (\<not> nullish ctypeInput \<and> \<not> falsy (get ctypeInput ''schema'') \<and>
      \<not> verifyClaim H claimContents (get ctypeInput ''schema'')
      \<longrightarrow> fromCTypeAndClaimContents H ctypeInput claimContents claimOwner
            = Inl ERROR_CLAIM_UNVERIFIABLE)
   \<and> (\<not> nullish ctypeInput \<and>
      \<not> validateNestedSchemas H (get ctypeInput ''schema'') nestedCType claimContents
      \<longrightarrow> fromNestedCTypeClaim H ctypeInput nestedCType claimContents claimOwner
            = Inl ERROR_NESTED_CLAIM_UNVERIFIABLE)
   \<and> (\<not> nullish ctypeInput \<and> falsy (get ctypeInput ''schema'')
      \<longrightarrow> fromCTypeAndClaimContents H ctypeInput claimContents claimOwner
            = Claim_constructor H (object [(''cTypeHash'', get ctypeInput ''hash''),
                                           (''contents'', claimContents),
                                           (''owner'', claimOwner)]))
   \<and> Claim_constructor
        (H\<lparr> verifyClaimStructure := anyVerifier, validateNestedSchemas := anyNested \<rparr>)
        claimInput
      = Claim_constructor H claimInput
   \<and> (claimErrorCheck H claimInput = Inl err
      \<longrightarrow> Claim_constructor H claimInput = Inl err)
   \<and> (claimErrorCheck H claimInput = Inr () \<and> \<not> nullish claimInput
      \<longrightarrow> Claim_constructor H claimInput
            = Inr \<lparr> cTypeHash = get claimInput ''cTypeHash'',
                    contents = get claimInput ''contents'',
                    owner = get claimInput ''owner'' \<rparr>)
   \<and> (\<not> nullish claimInput \<and> verifyClaim H (get claimInput ''contents'') cTypeSchema
      \<longrightarrow> fromClaim H claimInput cTypeSchema = Claim_constructor H claimInput)
   \<and> (\<not> nullish ctypeInput \<and> verifyClaim H claimContents (get ctypeInput ''schema'')
      \<longrightarrow> fromCTypeAndClaimContents H ctypeInput claimContents claimOwner
            = Claim_constructor H (object [(''cTypeHash'', get ctypeInput ''hash''),
                                           (''contents'', claimContents),
                                           (''owner'', claimOwner)]))
   \<and> (\<not> nullish ctypeInput \<and>
      validateNestedSchemas H (get ctypeInput ''schema'') nestedCType claimContents
      \<longrightarrow> fromNestedCTypeClaim H ctypeInput nestedCType claimContents claimOwner
            = Claim_constructor H (object [(''cTypeHash'', get ctypeInput ''hash''),
                                           (''contents'', claimContents),
                                           (''owner'', claimOwner)]))"
  by (simp add: fromClaim_def fromCTypeAndClaimContents_def fromNestedCTypeClaim_def
      Claim_constructor_def readProp_def)

theorem claim_schema_validation_witness:
  "fromClaim rejectingVerifier sampleClaim (object [(''title'', JStr ''Person'')])
     = Inl ERROR_CLAIM_UNVERIFIABLE
   \<and> fromCTypeAndClaimContents rejectingVerifier
       (object [(''hash'', JStr ''0xctype''), (''schema'', object [(''title'', JStr ''Person'')])])
       (object [(''name'', JStr ''Bob'')]) (JStr ''bob'')
     = Inl ERROR_CLAIM_UNVERIFIABLE
   \<and> fromNestedCTypeClaim rejectingVerifier
       (object [(''hash'', JStr ''0xctype''), (''schema'', object [(''title'', JStr ''Person'')])])
       (JArr []) (object [(''name'', JStr ''Bob'')]) (JStr ''bob'')
     = Inl ERROR_NESTED_CLAIM_UNVERIFIABLE
   \<and> fromCTypeAndClaimContents rejectingVerifier (object [(''hash'', JStr ''0xctype'')])
       (object [(''name'', JStr ''Bob'')]) (JStr ''bob'')
     = Claim_constructor rejectingVerifier
         (object [(''cTypeHash'', JStr ''0xctype''), (''contents'', object [(''name'', JStr ''Bob'')]),
                  (''owner'', JStr ''bob'')])
   \<and> Claim_constructor rejectingVerifier
       (object [(''cTypeHash'', JStr ''0xctype''), (''contents'', object [(''name'', JStr ''Bob'')])])
     = Inl ERROR_OWNER_NOT_PROVIDED
   \<and> Claim_constructor rejectingVerifier sampleClaim
     = Inr \<lparr> cTypeHash = JStr ''0xctype'', contents = object [(''name'', JStr ''Bob'')],
             owner = JStr ''bob'' \<rparr>
   \<and> fromClaim acceptingVerifier sampleClaim (object [(''title'', JStr ''Person'')])
     = Claim_constructor acceptingVerifier sampleClaim
   \<and> fromCTypeAndClaimContents acceptingVerifier
       (object [(''hash'', JStr ''0xctype''), (''schema'', object [(''title'', JStr ''Person'')])])
       (object [(''name'', JStr ''Bob'')]) (JStr ''bob'')
     = Claim_constructor acceptingVerifier
         (object [(''cTypeHash'', JStr ''0xctype''), (''contents'', object [(''name'', JStr ''Bob'')]),
                  (''owner'', JStr ''bob'')])
   \<and> fromNestedCTypeClaim acceptingVerifier
       (object [(''hash'', JStr ''0xctype''), (''schema'', object [(''title'', JStr ''Person'')])])
       (JArr []) (object [(''name'', JStr ''Bob'')]) (JStr ''bob'')
     = Claim_constructor acceptingVerifier
         (object [(''cTypeHash'', JStr ''0xctype''), (''contents'', object [(''name'', JStr ''Bob'')]),
                  (''owner'', JStr ''bob'')])"
proof -
  have a: "fromClaim rejectingVerifier sampleClaim (object [(''title'', JStr ''Person'')])
     = Inl ERROR_CLAIM_UNVERIFIABLE"
    using claim_schema_validation [of sampleClaim rejectingVerifier
        "object [(''title'', JStr ''Person'')]"]
    by (simp add: rejectingVerifier_def verifyClaim_def sampleClaim_def)
  have b: "fromCTypeAndClaimContents rejectingVerifier
       (object [(''hash'', JStr ''0xctype''), (''schema'', object [(''title'', JStr ''Person'')])])
       (object [(''name'', JStr ''Bob'')]) (JStr ''bob'')
     = Inl ERROR_CLAIM_UNVERIFIABLE"
    "fromNestedCTypeClaim rejectingVerifier
       (object [(''hash'', JStr ''0xctype''), (''schema'', object [(''title'', JStr ''Person'')])])
       (JArr []) (object [(''name'', JStr ''Bob'')]) (JStr ''bob'')
     = Inl ERROR_NESTED_CLAIM_UNVERIFIABLE"
    using claim_schema_validation [of _ rejectingVerifier _
        "object [(''hash'', JStr ''0xctype''),
                 (''schema'', object [(''title'', JStr ''Person'')])]"
        "object [(''name'', JStr ''Bob'')]" "JStr ''bob''" "JArr []"]
    by (simp_all add: rejectingVerifier_def verifyClaim_def)
  have c: "fromCTypeAndClaimContents rejectingVerifier (object [(''hash'', JStr ''0xctype'')])
       (object [(''name'', JStr ''Bob'')]) (JStr ''bob'')
     = Claim_constructor rejectingVerifier
         (object [(''cTypeHash'', JStr ''0xctype''), (''contents'', object [(''name'', JStr ''Bob'')]),
                  (''owner'', JStr ''bob'')])"
    using claim_schema_validation [of _ rejectingVerifier _
        "object [(''hash'', JStr ''0xctype'')]"
        "object [(''name'', JStr ''Bob'')]" "JStr ''bob''"]
    by simp
  have missing: "claimErrorCheck rejectingVerifier
       (object [(''cTypeHash'', JStr ''0xctype''), (''contents'', object [(''name'', JStr ''Bob'')])])
     = Inl ERROR_OWNER_NOT_PROVIDED"
    by (simp add: rejectingVerifier_def)
  have d: "Claim_constructor rejectingVerifier
       (object [(''cTypeHash'', JStr ''0xctype''), (''contents'', object [(''name'', JStr ''Bob'')])])
     = Inl ERROR_OWNER_NOT_PROVIDED"
    using claim_schema_validation
      [of "object [(''cTypeHash'', JStr ''0xctype''),
                   (''contents'', object [(''name'', JStr ''Bob'')])]"
          rejectingVerifier _ _ _ _ _ _ _ ERROR_OWNER_NOT_PROVIDED]
      missing
    by blast
  have present: "claimErrorCheck rejectingVerifier sampleClaim = Inr ()"
    "\<not> nullish sampleClaim"
    by (simp_all add: rejectingVerifier_def sampleClaim_def)
  have "Claim_constructor rejectingVerifier sampleClaim
     = Inr \<lparr> cTypeHash = get sampleClaim ''cTypeHash'', contents = get sampleClaim ''contents'',
             owner = get sampleClaim ''owner'' \<rparr>"
    using claim_schema_validation [of sampleClaim rejectingVerifier] present
    by blast
  then have e: "Claim_constructor rejectingVerifier sampleClaim
     = Inr \<lparr> cTypeHash = JStr ''0xctype'', contents = object [(''name'', JStr ''Bob'')],
             owner = JStr ''bob'' \<rparr>"
    by (simp add: sampleClaim_def)
  have f: "fromClaim acceptingVerifier sampleClaim (object [(''title'', JStr ''Person'')])
     = Claim_constructor acceptingVerifier sampleClaim"
    using claim_schema_validation [of sampleClaim acceptingVerifier
        "object [(''title'', JStr ''Person'')]"]
    by (simp add: acceptingVerifier_def verifyClaim_def sampleClaim_def)
  have g: "fromCTypeAndClaimContents acceptingVerifier
       (object [(''hash'', JStr ''0xctype''), (''schema'', object [(''title'', JStr ''Person'')])])
       (object [(''name'', JStr ''Bob'')]) (JStr ''bob'')
     = Claim_constructor acceptingVerifier
         (object [(''cTypeHash'', JStr ''0xctype''), (''contents'', object [(''name'', JStr ''Bob'')]),
                  (''owner'', JStr ''bob'')])"
    "fromNestedCTypeClaim acceptingVerifier
       (object [(''hash'', JStr ''0xctype''), (''schema'', object [(''title'', JStr ''Person'')])])
       (JArr []) (object [(''name'', JStr ''Bob'')]) (JStr ''bob'')
     = Claim_constructor acceptingVerifier
         (object [(''cTypeHash'', JStr ''0xctype''), (''contents'', object [(''name'', JStr ''Bob'')]),
                  (''owner'', JStr ''bob'')])"
    using claim_schema_validation [of _ acceptingVerifier _
        "object [(''hash'', JStr ''0xctype''),
                 (''schema'', object [(''title'', JStr ''Person'')])]"
        "object [(''name'', JStr ''Bob'')]" "JStr ''bob''" "JArr []"]
    by (simp_all add: acceptingVerifier_def verifyClaim_def)
  from a b c d e f g show ?thesis by (intro conjI)
qed

text \<open>
  The claim C7 as stated fails: with a verifier that accepts no contents at all, the public
  constructor still builds a claim, and so does \<open>fromCTypeAndClaimContents\<close> for a cType
  without a schema.
\<close>

theorem claim_without_schema_validation:
  "\<not> verifyClaim rejectingVerifier (get sampleClaim ''contents'')
       (object [(''title'', JStr ''Person'')])
   \<and> Claim_constructor rejectingVerifier sampleClaim
       = Inr \<lparr> cTypeHash = JStr ''0xctype'', contents = object [(''name'', JStr ''Bob'')],
               owner = JStr ''bob'' \<rparr>
   \<and> \<not> verifyClaim rejectingVerifier (object [(''name'', JStr ''Bob'')]) JUndefined
   \<and> fromCTypeAndClaimContents rejectingVerifier (object [(''hash'', JStr ''0xctype'')])
         (object [(''name'', JStr ''Bob'')]) (JStr ''bob'')
       = Inr \<lparr> cTypeHash = JStr ''0xctype'', contents = object [(''name'', JStr ''Bob'')],
               owner = JStr ''bob'' \<rparr>"
  by (simp add: rejectingVerifier_def verifyClaim_def sampleClaim_def Claim_constructor_def
      fromCTypeAndClaimContents_def readProp_def)

end
